theory Spec2Isabelle
  imports Complex_Main "HOL-Library.Sublist"
begin

text \<open>
  A shallow embedding of the ElizaOS vision agent: the response synthesizer
  \<open>OraAction\<close> (\<open>prepareContextString\<close>, \<open>generateResponse\<close>, \<open>execute\<close>), the vision
  adapter \<open>GoogleVisionClient\<close> (\<open>analyzeImage\<close>, \<open>getMockResponse\<close>) with its action
  \<open>GoogleVisionAction\<close>, and the request handler of the HTTP server.

  \<open>generateResponse\<close> is modelled twice. The first model takes an \<open>AnalysisResult\<close> of
  the documented shape and a string query; the properties of the synthesizer are stated
  about it. The second model takes arbitrary values, as \<open>execute\<close> and the HTTP routes
  do, and makes every \<open>throw\<close> a result; the two are proved to agree on well-shaped
  input.
\<close>

section \<open>Strings and arrays of the source language\<close>

text \<open>
  JavaScript strings are modelled as \<open>string\<close> (a list of 8-bit characters), so the
  model covers ASCII text: \<open>toLowerCase\<close> maps \<open>A\<close>..\<open>Z\<close> to \<open>a\<close>..\<open>z\<close> and
  leaves every other character alone, and \<open>length\<close> counts characters.
\<close>

definition toLowerChar :: "char \<Rightarrow> char" where
  "toLowerChar c =
     (case map_of (zip ''ABCDEFGHIJKLMNOPQRSTUVWXYZ'' ''abcdefghijklmnopqrstuvwxyz'') c of
        Some l \<Rightarrow> l
      | None \<Rightarrow> c)"

definition toLowerCase :: "string \<Rightarrow> string" where
  "toLowerCase s = map toLowerChar s"

text \<open>\<open>s.includes(t)\<close> on strings: \<open>t\<close> occurs in \<open>s\<close> as a contiguous run.\<close>

primrec str_includes :: "string \<Rightarrow> string \<Rightarrow> bool" where
  "str_includes [] t = (t = [])"
| "str_includes (c # s) t = (prefix t (c # s) \<or> str_includes s t)"

text \<open>\<open>xs.join(sep)\<close> on an array of strings.\<close>

fun join :: "string \<Rightarrow> string list \<Rightarrow> string" where
  "join sep [] = []"
| "join sep [x] = x"
| "join sep (x # y # ys) = x @ sep @ join sep (y # ys)"

text \<open>\<open>xs[i]\<close>: \<open>undefined\<close> (here \<open>None\<close>) when the index is out of range.\<close>

definition elemAt :: "'a list \<Rightarrow> nat \<Rightarrow> 'a option" where
  "elemAt xs i = (if i < length xs then Some (xs ! i) else None)"

text \<open>
  Truthiness of a value that is a string or \<open>undefined\<close>: \<open>undefined\<close> and the empty
  string are falsy. \<open>orElse v d\<close> is \<open>v || d\<close>.
\<close>

definition truthyStr :: "string option \<Rightarrow> bool" where
  "truthyStr v = (case v of None \<Rightarrow> False | Some s \<Rightarrow> s \<noteq> [])"

definition orElse :: "string option \<Rightarrow> string \<Rightarrow> string" where
  "orElse v d = (case v of None \<Rightarrow> d | Some s \<Rightarrow> if s = [] then d else s)"

text \<open>Decimal rendering of an array length inside a template literal.\<close>

fun string_of_nat :: "nat \<Rightarrow> string" where
  "string_of_nat n =
     (if n < 10 then [''0123456789'' ! n]
      else string_of_nat (n div 10) @ [''0123456789'' ! (n mod 10)])"

declare string_of_nat.simps [simp del]

definition string_of_int :: "int \<Rightarrow> string" where
  "string_of_int i = (if i < 0 then ''-'' @ string_of_nat (nat (- i)) else string_of_nat (nat i))"

definition dquote :: char where
  "dquote = CHR 0x22"

section \<open>Data model\<close>

record label =
  description :: string
  score :: real

type_synonym vertex = "real \<times> real"

record localizedObject =
  name :: string
  score :: real
  boundingPoly :: "vertex list"

record AnalysisResult =
  labels :: "label list"
  detectedText :: string
  objects :: "localizedObject list"

text \<open>
  The field \<open>text\<close> of the source is called \<open>detectedText\<close> here.
  What \<open>generateResponse\<close> and \<open>execute\<close> return: \<open>{completion: ...}\<close>, or the error
  object \<open>{error: true, message: ...}\<close>.
\<close>

datatype ora_reply =
  Completion (completion: string)
| OraError (message: string)

section \<open>The response synthesizer: \<open>OraAction.generateResponse\<close>\<close>

subsection \<open>The main subjects of the image\<close>

definition mainLabels :: "AnalysisResult \<Rightarrow> string list" where
  "mainLabels imageAnalysis =
     map (\<lambda>l. toLowerCase (description l)) (take 5 (labels imageAnalysis))"

definition mainObjects :: "AnalysisResult \<Rightarrow> string list" where
  "mainObjects imageAnalysis =
     map (\<lambda>ob. toLowerCase (name ob)) (objects imageAnalysis)"

definition allEntities :: "AnalysisResult \<Rightarrow> string list" where
  "allEntities imageAnalysis = mainLabels imageAnalysis @ mainObjects imageAnalysis"

definition luxuryItems :: "string list" where
  "luxuryItems =
     [''watch'', ''analog watch'', ''timepiece'', ''wristwatch'', ''chronograph'', ''rolex'',
      ''omega'', ''patek philippe'',
      ''jewelry'', ''ring'', ''necklace'', ''bracelet'', ''diamond'', ''gold'', ''silver'',
      ''platinum'',
      ''sneakers'', ''shoes'', ''nike'', ''adidas'', ''jordan'', ''yeezy'', ''designer'',
      ''luxury'', ''fashion'',
      ''handbag'', ''purse'', ''wallet'', ''louis vuitton'', ''gucci'', ''prada'', ''chanel'',
      ''hermes'']"

definition detectedLuxuryItems :: "AnalysisResult \<Rightarrow> string list" where
  "detectedLuxuryItems imageAnalysis =
     filter (\<lambda>item. item \<in> set luxuryItems) (allEntities imageAnalysis)"

subsection \<open>Luxury items\<close>

definition watchDetails :: "label list \<Rightarrow> string list" where
  "watchDetails ls =
     map description
       (take 5
          (filter (\<lambda>l. toLowerCase (description l) \<notin> set [''watch'', ''analog watch'']) ls))"

definition watchCompletion :: "string list \<Rightarrow> string" where
  "watchCompletion details =
     ''This image shows a luxury timepiece. It appears to be an analog watch with the following characteristics: ''
     @ join '', '' details
     @ ''. Watches like this are precision instruments that combine craftsmanship with functionality, often serving as both a practical tool and a fashion statement or collectible item.''"

definition luxuryCompletion :: "string list \<Rightarrow> string list \<Rightarrow> string" where
  "luxuryCompletion detected mainLs =
     ''This image shows a luxury collectible item: '' @ join '', '' detected
     @ ''. The item features '' @ join '', '' (take 3 mainLs)
     @ '' design elements. Luxury items like this are often valued for their craftsmanship, brand prestige, and aesthetic appeal, making them desirable collectibles.''"

text \<open>The test "specific handling for watches".\<close>

definition watchDetected :: "string list \<Rightarrow> string list \<Rightarrow> bool" where
  "watchDetected mainLs mainOs =
     (''watch'' \<in> set mainLs \<or> ''analog watch'' \<in> set mainLs \<or>
      ''watch'' \<in> set mainOs \<or> ''analog watch'' \<in> set mainOs)"

text \<open>
  The body of the luxury branch. The source writes it twice, at the head of the chain and
  at the head of the default branch; both copies are this function.
\<close>

definition luxuryItemIdentification ::
    "label list \<Rightarrow> string list \<Rightarrow> string list \<Rightarrow> string list \<Rightarrow> string" where
  "luxuryItemIdentification ls mainLs mainOs detected =
     (if watchDetected mainLs mainOs then watchCompletion (watchDetails ls)
      else luxuryCompletion detected mainLs)"

subsection \<open>Animal identification\<close>

definition animalIdentification :: "string list \<Rightarrow> string list \<Rightarrow> string" where
  "animalIdentification mainLs entities =
     (if ''cat'' \<in> set entities then
        ''The image shows a cat. Cats are domestic felines known for their independent nature and grooming habits. They are popular pets worldwide.''
      else if ''dog'' \<in> set entities then
        ''The image shows a dog. Dogs are domesticated mammals known for their loyalty and companionship. They are one of the most popular pets globally.''
      else if list_ex (\<lambda>label. label \<in> set [''animal'', ''mammal'', ''wildlife'']) mainLs then
        (let animalType =
               find (\<lambda>label. label \<notin> set [''animal'', ''mammal'', ''wildlife'']) mainLs
         in ''The image appears to show a '' @ orElse animalType ''wild animal''
            @ ''. I can see characteristics typical of '' @ orElse animalType ''wildlife''
            @ '' in the image.'')
      else
        ''I don't see any animals in this image. The image appears to show ''
        @ (if truthyStr (elemAt mainLs 0) then ''a '' @ mainLs ! 0
           else ''a scene without animals'')
        @ ''.'')"

subsection \<open>Object identification\<close>

definition objectIdentification ::
    "localizedObject list \<Rightarrow> string list \<Rightarrow> string \<Rightarrow> string list \<Rightarrow> string" where
  "objectIdentification obs mainLs txt detected =
     (if length obs > 0 then
        (let objectsList = join '', '' (map name obs) in
         if length detected > 0 then
           ''The main object in this image is a luxury item: '' @ objectsList
           @ ''. It features '' @ join '', '' (take 3 mainLs)
           @ '' design elements. This appears to be a high-quality collectible item.''
         else
           ''The main objects in this image are: '' @ objectsList
           @ ''. The image primarily shows '' @ orElse (elemAt mainLs 0) ''a scene''
           @ '' with '' @ string_of_nat (length obs) @ '' identifiable objects.'')
      else if length mainLs > 0 then
        ''This image shows '' @ mainLs ! 0 @ '' with features including ''
        @ join '', '' (take 3 (drop 1 mainLs)) @ ''. ''
        @ (if txt \<noteq> [] \<and> length txt > 0
           then ''There is also text visible: '' @ [dquote] @ txt @ [dquote] @ ''.''
           else [])
      else
        ''The image doesn't contain clearly defined objects. It appears to be a scene.'')"

subsection \<open>Colour queries\<close>

definition colorQueries :: "string list \<Rightarrow> string list \<Rightarrow> string" where
  "colorQueries mainLs mainOs =
     (let colorLabels =
            filter (\<lambda>label. label \<in> set [''red'', ''blue'', ''green'', ''yellow'', ''black'',
                       ''white'', ''purple'', ''orange'', ''pink'', ''brown'', ''gray'', ''grey'',
                       ''silver'', ''gold''])
              mainLs
      in
      if length colorLabels > 0 then
        ''The dominant colors in this image appear to be '' @ join '', '' colorLabels @ ''.''
      else if ''sky'' \<in> set mainLs \<or> ''sky'' \<in> set mainOs then
        ''The image contains sky which appears blue, and likely has other natural colors typical of an outdoor scene.''
      else if ''landscape'' \<in> set mainLs \<or> ''nature'' \<in> set mainLs then
        ''The image shows a natural landscape with typical earth tones, greens from vegetation, and blues from the sky.''
      else
        ''I cannot specifically identify the colors in this image, but it appears to show ''
        @ (if truthyStr (elemAt mainLs 0) then ''a '' @ mainLs ! 0 else ''a scene'')
        @ '' with its typical coloration.'')"

subsection \<open>Text content\<close>

definition textContent :: "string \<Rightarrow> string" where
  "textContent txt =
     (if txt \<noteq> [] \<and> length txt > 0 then
        ''The text in the image reads: '' @ [dquote] @ txt @ [dquote]
      else
        ''There is no visible text in this image.'')"

subsection \<open>Location queries\<close>

definition locationQueries :: "string list \<Rightarrow> string" where
  "locationQueries mainLs =
     (if ''landscape'' \<in> set mainLs \<or> ''nature'' \<in> set mainLs \<or> ''outdoor'' \<in> set mainLs then
        ''This appears to be an outdoor natural setting. Based on the visible elements like ''
        @ (if ''tree'' \<in> set mainLs then ''trees'' else ''natural features'')
        @ '', it's likely a park, forest, or natural landscape area.''
      else if ''indoor'' \<in> set mainLs \<or> ''room'' \<in> set mainLs then
        ''This appears to be an indoor setting, possibly a ''
        @ (if ''kitchen'' \<in> set mainLs then ''kitchen''
           else if ''bedroom'' \<in> set mainLs then ''bedroom''
           else if ''office'' \<in> set mainLs then ''office''
           else ''room or building interior'')
        @ ''.''
      else if ''urban'' \<in> set mainLs \<or> ''city'' \<in> set mainLs then
        ''This appears to be an urban setting, possibly in a city or town environment.''
      else
        ''I cannot determine the specific location from this image. It appears to show ''
        @ (if truthyStr (elemAt mainLs 0) then ''a '' @ mainLs ! 0 else ''a scene'')
        @ ''.'')"

subsection \<open>Default response based on image content\<close>

text \<open>
  The category sentences of the default branch (cat, dog, person, food, car), tested in
  this order on the main labels and the main objects; \<open>None\<close> when no category is present.
\<close>

definition specificCategory :: "string list \<Rightarrow> string list \<Rightarrow> string option" where
  "specificCategory mainLs mainOs =
     (if ''cat'' \<in> set mainLs \<or> ''cat'' \<in> set mainOs then
        Some ''This image shows a cat. It appears to be a domestic feline, commonly kept as a pet. Cats are known for their independent nature, agility, and grooming habits.''
      else if ''dog'' \<in> set mainLs \<or> ''dog'' \<in> set mainOs then
        Some ''This image shows a dog. Dogs are domesticated mammals that have been bred for various tasks such as hunting, herding, protection, and companionship.''
      else if ''person'' \<in> set mainLs \<or> ''person'' \<in> set mainOs then
        Some ''This image shows a person. I can see a human figure in the frame, though I cannot identify specific individuals.''
      else if ''food'' \<in> set mainLs \<or> ''food'' \<in> set mainOs then
        Some ''This image shows food. It appears to be a prepared dish or meal, though I cannot identify the specific cuisine or ingredients in detail.''
      else if ''car'' \<in> set mainLs \<or> ''car'' \<in> set mainOs then
        Some ''This image shows a car. It's a motor vehicle designed for transportation on roads, typically with four wheels.''
      else None)"

definition landscapeSentence :: string where
  "landscapeSentence =
     ''This image depicts a landscape photo featuring trees and sky with clouds. It's a natural outdoor scene showing elements of nature.''"

definition noFeaturesSentence :: string where
  "noFeaturesSentence =
     ''This image doesn't contain clearly identifiable objects or features that I can describe with confidence.''"

text \<open>The last alternative: "enhanced generic response based on top labels and objects".\<close>

definition genericResponse :: "localizedObject list \<Rightarrow> string \<Rightarrow> string list \<Rightarrow> string" where
  "genericResponse obs txt mainLs =
     (let topLabels = filter (\<lambda>l. length l > 0) (take 5 mainLs);
          textNote =
            (if txt \<noteq> [] \<and> length txt > 0
             then ''There is also some text visible: '' @ [dquote] @ txt @ [dquote] @ ''.''
             else [])
      in
      if length obs > 0 then
        ''This image shows '' @ join '', '' (map name obs)
        @ ''. The key features include '' @ join '', '' topLabels @ ''. '' @ textNote
      else if length topLabels > 0 then
        ''This image shows '' @ topLabels ! 0 @ '' with features including ''
        @ join '', '' (drop 1 topLabels) @ ''. '' @ textNote
      else noFeaturesSentence)"

definition defaultResponse ::
    "label list \<Rightarrow> localizedObject list \<Rightarrow> string \<Rightarrow> string list \<Rightarrow> string list \<Rightarrow>
     string list \<Rightarrow> string" where
  "defaultResponse ls obs txt mainLs mainOs detected =
     (if length detected > 0 then luxuryItemIdentification ls mainLs mainOs detected
      else
        (case specificCategory mainLs mainOs of
           Some sentence \<Rightarrow> sentence
         | None \<Rightarrow>
             if txt \<noteq> [] \<and> length txt > 0 \<and> length txt > 10 then
               ''This image contains text that reads: '' @ [dquote] @ txt @ [dquote]
               @ ''. It appears to be a document or text-containing image.''
             else if ''landscape'' \<in> set mainLs \<or> ''nature'' \<in> set mainLs then
               landscapeSentence
             else genericResponse obs txt mainLs))"

subsection \<open>The chain\<close>

definition generateResponse :: "AnalysisResult \<Rightarrow> string \<Rightarrow> string \<Rightarrow> ora_reply" where
  "generateResponse imageAnalysis query contextString =
     (let ls = labels imageAnalysis;
          obs = objects imageAnalysis;
          txt = detectedText imageAnalysis;
          mainLs = mainLabels imageAnalysis;
          mainOs = mainObjects imageAnalysis;
          entities = allEntities imageAnalysis;
          queryLower = toLowerCase query;
          detected = detectedLuxuryItems imageAnalysis
      in
      if length detected > 0 \<or>
         list_ex (\<lambda>label. str_includes label ''watch'' \<or> str_includes label ''jewelry'' \<or>
                           str_includes label ''fashion'') mainLs then
        Completion (luxuryItemIdentification ls mainLs mainOs detected)
      else if str_includes queryLower ''animal'' \<or> str_includes queryLower ''pet'' then
        Completion (animalIdentification mainLs entities)
      else if str_includes queryLower ''object'' \<or> str_includes queryLower ''thing'' \<or>
              str_includes queryLower ''what is'' \<or> str_includes queryLower ''what's in'' \<or>
              str_includes queryLower ''show me'' then
        Completion (objectIdentification obs mainLs txt detected)
      else if str_includes queryLower ''color'' \<or> str_includes queryLower ''colour'' then
        Completion (colorQueries mainLs mainOs)
      else if str_includes queryLower ''text'' \<or> str_includes queryLower ''say'' \<or>
              str_includes queryLower ''write'' \<or> str_includes queryLower ''read'' then
        Completion (textContent txt)
      else if str_includes queryLower ''where'' \<or> str_includes queryLower ''location'' then
        Completion (locationQueries mainLs)
      else
        Completion (defaultResponse ls obs txt mainLs mainOs detected))"

text \<open>
  The guards of the chain after the luxury branch test the lower-cased query alone, first
  match first. \<open>classifyQuery\<close> is that part of the chain, returning the name of the branch
  it selects; \<open>luxuryDetected\<close> is the guard of the first branch.
\<close>

datatype intent = Animal | ObjectId | Color | TextContent | Location | Default

definition classifyQuery :: "string \<Rightarrow> intent" where
  "classifyQuery queryLower =
     (if str_includes queryLower ''animal'' \<or> str_includes queryLower ''pet'' then Animal
      else if str_includes queryLower ''object'' \<or> str_includes queryLower ''thing'' \<or>
              str_includes queryLower ''what is'' \<or> str_includes queryLower ''what's in'' \<or>
              str_includes queryLower ''show me'' then ObjectId
      else if str_includes queryLower ''color'' \<or> str_includes queryLower ''colour'' then Color
      else if str_includes queryLower ''text'' \<or> str_includes queryLower ''say'' \<or>
              str_includes queryLower ''write'' \<or> str_includes queryLower ''read'' then
        TextContent
      else if str_includes queryLower ''where'' \<or> str_includes queryLower ''location'' then
        Location
      else Default)"

definition luxuryDetected :: "AnalysisResult \<Rightarrow> bool" where
  "luxuryDetected imageAnalysis =
     (length (detectedLuxuryItems imageAnalysis) > 0 \<or>
      list_ex (\<lambda>label. str_includes label ''watch'' \<or> str_includes label ''jewelry'' \<or>
                        str_includes label ''fashion'')
        (mainLabels imageAnalysis))"

section \<open>Values of the source language\<close>

text \<open>
  \<open>OraAction.execute\<close> and the HTTP routes receive values that no type constrains: a
  request body is whatever \<open>JSON.parse\<close> returns. \<open>jsval\<close> is the JSON values, \<open>undefined\<close>
  (a missing property), and the two primitives that a conversion refuses: \<open>BigInt\<close>
  (refused by \<open>JSON.stringify\<close>) and \<open>Symbol\<close> (refused by the conversions to a string and
  to a number). An object is the list of its own properties. Functions and cyclic objects
  are not modelled, so no property of an object is callable.
\<close>

datatype jsval =
  JUndefined
| JNull
| JBool bool
| JNum real
| JBigInt int
| JSymbol
| JStr string
| JArr "jsval list"
| JObj "(string \<times> jsval) list"

text \<open>
  What a \<open>throw\<close> carries: a \<open>TypeError\<close> raised by the engine, or \<open>new Error(message)\<close>
  of the source. The engine's wording of a \<open>TypeError\<close> is not modelled:
  \<open>errorMessage\<close> gives a fixed text for it.
\<close>

datatype exn = TypeError | Error string

definition errorMessage :: "exn \<Rightarrow> string" where
  "errorMessage e = (case e of TypeError \<Rightarrow> ''TypeError'' | Error m \<Rightarrow> m)"

text \<open>
  Conversions between numbers and text that the language defines on IEEE doubles
  (\<open>String(x)\<close>, \<open>x.toFixed(2)\<close>, \<open>Number(s)\<close> with \<open>None\<close> for \<open>NaN\<close>). The model takes
  them as parameters; every result below holds for all of them.
\<close>

record engine =
  numberToString :: "real \<Rightarrow> string"
  numberToFixed2 :: "real \<Rightarrow> string"
  stringToNumber :: "string \<Rightarrow> real option"

text \<open>
  One engine, to state closed examples. The proofs of the examples never unfold it: each
  of them holds for every engine.
\<close>

definition sampleEngine :: engine where
  "sampleEngine =
     \<lparr>numberToString = (\<lambda>x. string_of_int \<lfloor>x\<rfloor>),
      numberToFixed2 = (\<lambda>x. string_of_int \<lfloor>x\<rfloor> @ ''.00''),
      stringToNumber = (\<lambda>s. None)\<rparr>"

text \<open>Sequencing of computations that may throw: the first \<open>throw\<close> ends the computation.\<close>

definition andThen :: "'e + 'a \<Rightarrow> ('a \<Rightarrow> 'e + 'b) \<Rightarrow> 'e + 'b" where
  "andThen m f = (case m of Inl e \<Rightarrow> Inl e | Inr x \<Rightarrow> f x)"

fun sequence :: "('e + 'a) list \<Rightarrow> 'e + 'a list" where
  "sequence [] = Inr []"
| "sequence (m # ms) = andThen m (\<lambda>y. andThen (sequence ms) (\<lambda>ys. Inr (y # ys)))"

definition mapM :: "('a \<Rightarrow> 'e + 'b) \<Rightarrow> 'a list \<Rightarrow> 'e + 'b list" where
  "mapM f xs = sequence (map f xs)"

definition truthy :: "jsval \<Rightarrow> bool" where
  "truthy v =
     (case v of
        JUndefined \<Rightarrow> False
      | JNull \<Rightarrow> False
      | JBool b \<Rightarrow> b
      | JNum x \<Rightarrow> x \<noteq> 0
      | JBigInt i \<Rightarrow> i \<noteq> 0
      | JSymbol \<Rightarrow> True
      | JStr s \<Rightarrow> s \<noteq> []
      | JArr xs \<Rightarrow> True
      | JObj kvs \<Rightarrow> True)"

text \<open>
  \<open>v.k\<close> for the property names the source reads (none of them is inherited from a
  prototype, \<open>length\<close> of strings and arrays apart). \<open>readProp\<close> is the read on a value
  other than \<open>undefined\<close> and \<open>null\<close>; on those two the read throws.
\<close>

definition readProp :: "jsval \<Rightarrow> string \<Rightarrow> jsval" where
  "readProp v k =
     (case v of
        JObj kvs \<Rightarrow> (case map_of kvs k of Some x \<Rightarrow> x | None \<Rightarrow> JUndefined)
      | JArr xs \<Rightarrow> (if k = ''length'' then JNum (real (length xs)) else JUndefined)
      | JStr s \<Rightarrow> (if k = ''length'' then JNum (real (length s)) else JUndefined)
      | _ \<Rightarrow> JUndefined)"

definition getProp :: "jsval \<Rightarrow> string \<Rightarrow> exn + jsval" where
  "getProp v k =
     (case v of
        JUndefined \<Rightarrow> Inl TypeError
      | JNull \<Rightarrow> Inl TypeError
      | _ \<Rightarrow> Inr (readProp v k))"

text \<open>
  The conversion of a value to a string, as a template literal and \<open>join\<close> apply it. A
  \<open>Symbol\<close> cannot be converted. An object is converted by its \<open>toString\<close>: the inherited
  one gives \<open>[object Object]\<close>, and an own property of that name, which is not callable,
  makes the conversion throw (the inherited \<open>valueOf\<close> returns the object itself, and
  an own one is not callable either). An array is converted by \<open>join\<close>: its elements are
  converted in turn, \<open>undefined\<close> and \<open>null\<close> to the empty string.
\<close>

fun toStr :: "engine \<Rightarrow> jsval \<Rightarrow> exn + string" where
  "toStr E JUndefined = Inr ''undefined''"
| "toStr E JNull = Inr ''null''"
| "toStr E (JBool b) = Inr (if b then ''true'' else ''false'')"
| "toStr E (JNum x) = Inr (numberToString E x)"
| "toStr E (JBigInt i) = Inr (string_of_int i)"
| "toStr E JSymbol = Inl TypeError"
| "toStr E (JStr s) = Inr s"
| "toStr E (JArr xs) =
     andThen
       (sequence (map (\<lambda>x. if x = JUndefined \<or> x = JNull then Inr [] else toStr E x) xs))
       (\<lambda>parts. Inr (join '','' parts))"
| "toStr E (JObj kvs) =
     (case map_of kvs ''toString'' of
        None \<Rightarrow> Inr ''[object Object]''
      | Some f \<Rightarrow> Inl TypeError)"

text \<open>\<open>xs.join(sep)\<close> on an array of any values.\<close>

definition joinValues :: "engine \<Rightarrow> string \<Rightarrow> jsval list \<Rightarrow> exn + string" where
  "joinValues E sep xs =
     andThen (mapM (\<lambda>x. if x = JUndefined \<or> x = JNull then Inr [] else toStr E x) xs)
       (\<lambda>parts. Inr (join sep parts))"

text \<open>The values whose conversion to a string does not throw.\<close>

fun convertible :: "jsval \<Rightarrow> bool" where
  "convertible JSymbol = False"
| "convertible (JArr xs) = list_all convertible xs"
| "convertible (JObj kvs) = (map_of kvs ''toString'' = None)"
| "convertible v = True"

text \<open>
  \<open>v > n\<close> for a number \<open>n\<close>: \<open>v\<close> is converted to a number, an object or array through
  its conversion to a string, and \<open>NaN\<close> (here \<open>None\<close>) compares false.
\<close>

definition toNumber :: "engine \<Rightarrow> jsval \<Rightarrow> exn + real option" where
  "toNumber E v =
     (case v of
        JUndefined \<Rightarrow> Inr None
      | JNull \<Rightarrow> Inr (Some 0)
      | JBool b \<Rightarrow> Inr (Some (if b then 1 else 0))
      | JNum x \<Rightarrow> Inr (Some x)
      | JBigInt i \<Rightarrow> Inr (Some (real_of_int i))
      | JSymbol \<Rightarrow> Inl TypeError
      | JStr s \<Rightarrow> Inr (stringToNumber E s)
      | JArr xs \<Rightarrow> andThen (toStr E (JArr xs)) (\<lambda>s. Inr (stringToNumber E s))
      | JObj kvs \<Rightarrow> andThen (toStr E (JObj kvs)) (\<lambda>s. Inr (stringToNumber E s)))"

definition jsGreater :: "engine \<Rightarrow> jsval \<Rightarrow> real \<Rightarrow> exn + bool" where
  "jsGreater E v n =
     andThen (toNumber E v) (\<lambda>x. Inr (case x of None \<Rightarrow> False | Some y \<Rightarrow> y > n))"

text \<open>\<open>v && v.length > 0\<close>, the test the source puts before every use of a collection.\<close>

definition nonEmpty :: "engine \<Rightarrow> jsval \<Rightarrow> exn + bool" where
  "nonEmpty E v = (if truthy v then jsGreater E (readProp v ''length'') 0 else Inr False)"

text \<open>Methods: calling one on a value that does not have it throws a \<open>TypeError\<close>.\<close>

definition callToLowerCase :: "jsval \<Rightarrow> exn + string" where
  "callToLowerCase v = (case v of JStr s \<Rightarrow> Inr (toLowerCase s) | _ \<Rightarrow> Inl TypeError)"

definition callToFixed2 :: "engine \<Rightarrow> jsval \<Rightarrow> exn + string" where
  "callToFixed2 E v = (case v of JNum x \<Rightarrow> Inr (numberToFixed2 E x) | _ \<Rightarrow> Inl TypeError)"

definition callSubstring :: "jsval \<Rightarrow> nat \<Rightarrow> nat \<Rightarrow> exn + string" where
  "callSubstring v i j = (case v of JStr s \<Rightarrow> Inr (take (j - i) (drop i s)) | _ \<Rightarrow> Inl TypeError)"

definition callSlice :: "jsval \<Rightarrow> nat \<Rightarrow> nat \<Rightarrow> exn + jsval" where
  "callSlice v i j =
     (case v of
        JArr xs \<Rightarrow> Inr (JArr (take (j - i) (drop i xs)))
      | JStr s \<Rightarrow> Inr (JStr (take (j - i) (drop i s)))
      | _ \<Rightarrow> Inl TypeError)"

definition callMap :: "jsval \<Rightarrow> (jsval \<Rightarrow> exn + 'a) \<Rightarrow> exn + 'a list" where
  "callMap v f = (case v of JArr xs \<Rightarrow> mapM f xs | _ \<Rightarrow> Inl TypeError)"

text \<open>
  \<open>JSON.stringify(v)\<close> throws a \<open>TypeError\<close> when it reaches a \<open>BigInt\<close> (a \<open>Symbol\<close> is
  left out or written as \<open>null\<close>, and \<open>toString\<close> is not consulted); its text is only
  logged, so the model keeps whether it throws.
\<close>

fun serializable :: "jsval \<Rightarrow> bool" where
  "serializable (JBigInt i) = False"
| "serializable (JArr xs) = list_all serializable xs"
| "serializable (JObj kvs) = list_all serializable (map snd kvs)"
| "serializable v = True"

definition jsonStringify :: "jsval \<Rightarrow> exn + unit" where
  "jsonStringify v = (if serializable v then Inr () else Inl TypeError)"

section \<open>\<open>OraAction\<close> on arbitrary values\<close>

text \<open>
  The same source functions, without the assumption that \<open>imageAnalysis\<close> has the shape
  of an \<open>AnalysisResult\<close> and \<open>query\<close> is a string: every property read and method call
  that can throw is a step that can return \<open>Inl\<close>.
\<close>

subsection \<open>\<open>prepareContextString\<close>\<close>

definition describeEntry :: "engine \<Rightarrow> string \<Rightarrow> jsval \<Rightarrow> exn + string" where
  "describeEntry E key entry =
     andThen (getProp entry key) (\<lambda>title.
     andThen (toStr E title) (\<lambda>shown.
     andThen (getProp entry ''score'') (\<lambda>sc.
     andThen (callToFixed2 E sc) (\<lambda>fixed.
       Inr (shown @ '' (confidence: '' @ fixed @ '')'')))))"

definition prepareContextString :: "engine \<Rightarrow> jsval \<Rightarrow> exn + string" where
  "prepareContextString E imageAnalysis =
     andThen (getProp imageAnalysis ''labels'') (\<lambda>ls.
     andThen (getProp imageAnalysis ''objects'') (\<lambda>obs.
     andThen (getProp imageAnalysis ''text'') (\<lambda>txt.
     andThen (nonEmpty E ls) (\<lambda>hasLabels.
     andThen
       (if hasLabels then
          andThen (callMap ls (describeEntry E ''description'')) (\<lambda>parts.
            Inr (''Image Analysis Results:'' @ [CHR 0x0A] @ ''Labels: '' @ join '', '' parts
                 @ [CHR 0x0A]))
        else Inr (''Image Analysis Results:'' @ [CHR 0x0A])) (\<lambda>context1.
     andThen (nonEmpty E txt) (\<lambda>hasText.
     andThen
       (if hasText then
          andThen (toStr E txt) (\<lambda>shown.
            Inr (context1 @ ''Text detected: '' @ shown @ [CHR 0x0A]))
        else Inr (context1 @ ''Text detected: None'' @ [CHR 0x0A])) (\<lambda>context2.
     andThen (nonEmpty E obs) (\<lambda>hasObjects.
       if hasObjects then
         andThen (callMap obs (describeEntry E ''name'')) (\<lambda>parts.
           Inr (context2 @ ''Objects: '' @ join '', '' parts @ [CHR 0x0A]))
       else Inr context2))))))))"

subsection \<open>\<open>generateResponse\<close>\<close>

text \<open>
  \<open>labels.filter(l => ![...].includes(l.description.toLowerCase())).slice(0, 5)
  .map(l => l.description)\<close>: the filter visits every label, so one label without a string
  description makes it throw.
\<close>

definition watchDetailsDyn :: "jsval list \<Rightarrow> exn + string list" where
  "watchDetailsDyn ls =
     andThen
       (mapM (\<lambda>l. andThen (getProp l ''description'') (\<lambda>d.
                  andThen (callToLowerCase d) (\<lambda>lower. Inr (d, lower)))) ls) (\<lambda>pairs.
       Inr (map (\<lambda>p. case fst p of JStr d \<Rightarrow> d | _ \<Rightarrow> [])
              (take 5 (filter (\<lambda>p. snd p \<notin> set [''watch'', ''analog watch'']) pairs))))"

definition luxuryItemIdentificationDyn ::
    "jsval list \<Rightarrow> string list \<Rightarrow> string list \<Rightarrow> string list \<Rightarrow> exn + string" where
  "luxuryItemIdentificationDyn ls mainLs mainOs detected =
     (if watchDetected mainLs mainOs then
        andThen (watchDetailsDyn ls) (\<lambda>details. Inr (watchCompletion details))
      else Inr (luxuryCompletion detected mainLs))"

text \<open>
  \<open>objects.map(o => o.name)\<close>, read after \<open>mainObjects\<close> was computed: every element is
  then an object whose \<open>name\<close> is a string.
\<close>

definition objectNames :: "jsval list \<Rightarrow> jsval list" where
  "objectNames obs = map (\<lambda>ob. readProp ob ''name'') obs"

text \<open>
  The part of a sentence that quotes the detected text:
  \<open>text && text.length > 0 ? `lead "${text}".` : ''\<close>.
\<close>

definition textNote :: "engine \<Rightarrow> string \<Rightarrow> jsval \<Rightarrow> exn + string" where
  "textNote E lead txt =
     andThen (nonEmpty E txt) (\<lambda>hasText.
       if hasText then
         andThen (toStr E txt) (\<lambda>shown. Inr (lead @ [dquote] @ shown @ [dquote] @ ''.''))
       else Inr [])"

definition objectIdentificationDyn ::
    "engine \<Rightarrow> jsval list \<Rightarrow> string list \<Rightarrow> jsval \<Rightarrow> string list \<Rightarrow> exn + string" where
  "objectIdentificationDyn E obs mainLs txt detected =
     (if length obs > 0 then
        andThen (joinValues E '', '' (objectNames obs)) (\<lambda>objectsList.
          if length detected > 0 then
            Inr (''The main object in this image is a luxury item: '' @ objectsList
                 @ ''. It features '' @ join '', '' (take 3 mainLs)
                 @ '' design elements. This appears to be a high-quality collectible item.'')
          else
            Inr (''The main objects in this image are: '' @ objectsList
                 @ ''. The image primarily shows '' @ orElse (elemAt mainLs 0) ''a scene''
                 @ '' with '' @ string_of_nat (length obs) @ '' identifiable objects.''))
      else if length mainLs > 0 then
        andThen (textNote E ''There is also text visible: '' txt) (\<lambda>note.
          Inr (''This image shows '' @ mainLs ! 0 @ '' with features including ''
               @ join '', '' (take 3 (drop 1 mainLs)) @ ''. '' @ note))
      else
        Inr ''The image doesn't contain clearly defined objects. It appears to be a scene.'')"

definition textContentDyn :: "engine \<Rightarrow> jsval \<Rightarrow> exn + string" where
  "textContentDyn E txt =
     andThen (nonEmpty E txt) (\<lambda>hasText.
       if hasText then
         andThen (toStr E txt) (\<lambda>shown.
           Inr (''The text in the image reads: '' @ [dquote] @ shown @ [dquote]))
       else
         Inr ''There is no visible text in this image.'')"

definition genericResponseDyn ::
    "engine \<Rightarrow> jsval list \<Rightarrow> jsval \<Rightarrow> string list \<Rightarrow> exn + string" where
  "genericResponseDyn E obs txt mainLs =
     (let topLabels = filter (\<lambda>l. length l > 0) (take 5 mainLs) in
      if length obs > 0 then
        andThen (joinValues E '', '' (objectNames obs)) (\<lambda>objectsList.
        andThen (textNote E ''There is also some text visible: '' txt) (\<lambda>note.
          Inr (''This image shows '' @ objectsList
               @ ''. The key features include '' @ join '', '' topLabels @ ''. '' @ note)))
      else if length topLabels > 0 then
        andThen (textNote E ''There is also some text visible: '' txt) (\<lambda>note.
          Inr (''This image shows '' @ topLabels ! 0 @ '' with features including ''
               @ join '', '' (drop 1 topLabels) @ ''. '' @ note))
      else Inr noFeaturesSentence)"

text \<open>\<open>text && text.length > 0 && text.length > 10\<close>.\<close>

definition substantialText :: "engine \<Rightarrow> jsval \<Rightarrow> exn + bool" where
  "substantialText E txt =
     andThen (nonEmpty E txt) (\<lambda>hasText.
       if hasText then jsGreater E (readProp txt ''length'') 10 else Inr False)"

definition defaultResponseDyn ::
    "engine \<Rightarrow> jsval list \<Rightarrow> jsval list \<Rightarrow> jsval \<Rightarrow> string list \<Rightarrow> string list \<Rightarrow>
     string list \<Rightarrow> exn + string" where
  "defaultResponseDyn E ls obs txt mainLs mainOs detected =
     (if length detected > 0 then luxuryItemIdentificationDyn ls mainLs mainOs detected
      else
        (case specificCategory mainLs mainOs of
           Some sentence \<Rightarrow> Inr sentence
         | None \<Rightarrow>
             andThen (substantialText E txt) (\<lambda>substantial.
               if substantial then
                 andThen (toStr E txt) (\<lambda>shown.
                   Inr (''This image contains text that reads: '' @ [dquote] @ shown
                        @ [dquote]
                        @ ''. It appears to be a document or text-containing image.''))
               else if ''landscape'' \<in> set mainLs \<or> ''nature'' \<in> set mainLs then
                 Inr landscapeSentence
               else genericResponseDyn E obs txt mainLs)))"

text \<open>
  The head of the function computes \<open>mainLabels\<close>, \<open>mainObjects\<close> and \<open>queryLower\<close>; each
  can throw. When they succeed, \<open>labels\<close> and \<open>objects\<close> are arrays (\<open>arrayElements\<close> reads
  their elements), and the chain runs as above.
\<close>

definition arrayElements :: "jsval \<Rightarrow> jsval list" where
  "arrayElements v = (case v of JArr xs \<Rightarrow> xs | _ \<Rightarrow> [])"

definition completed :: "exn + string \<Rightarrow> exn + ora_reply" where
  "completed m = andThen m (\<lambda>c. Inr (Completion c))"

definition generateResponseDyn :: "engine \<Rightarrow> jsval \<Rightarrow> jsval \<Rightarrow> string \<Rightarrow> exn + ora_reply" where
  "generateResponseDyn E imageAnalysis query contextString =
     andThen (getProp imageAnalysis ''labels'') (\<lambda>labelsV.
     andThen (getProp imageAnalysis ''objects'') (\<lambda>objectsV.
     andThen (getProp imageAnalysis ''text'') (\<lambda>txt.
     andThen (andThen (callSlice labelsV 0 5) (\<lambda>top.
                callMap top (\<lambda>l. andThen (getProp l ''description'') callToLowerCase)))
       (\<lambda>mainLs.
     andThen (callMap objectsV (\<lambda>ob. andThen (getProp ob ''name'') callToLowerCase))
       (\<lambda>mainOs.
     andThen (callToLowerCase query) (\<lambda>queryLower.
       (let ls = arrayElements labelsV;
            obs = arrayElements objectsV;
            entities = mainLs @ mainOs;
            detected = filter (\<lambda>item. item \<in> set luxuryItems) entities
        in
        if length detected > 0 \<or>
           list_ex (\<lambda>label. str_includes label ''watch'' \<or> str_includes label ''jewelry'' \<or>
                             str_includes label ''fashion'') mainLs then
          completed (luxuryItemIdentificationDyn ls mainLs mainOs detected)
        else if str_includes queryLower ''animal'' \<or> str_includes queryLower ''pet'' then
          completed (Inr (animalIdentification mainLs entities))
        else if str_includes queryLower ''object'' \<or> str_includes queryLower ''thing'' \<or>
                str_includes queryLower ''what is'' \<or> str_includes queryLower ''what's in'' \<or>
                str_includes queryLower ''show me'' then
          completed (objectIdentificationDyn E obs mainLs txt detected)
        else if str_includes queryLower ''color'' \<or> str_includes queryLower ''colour'' then
          completed (Inr (colorQueries mainLs mainOs))
        else if str_includes queryLower ''text'' \<or> str_includes queryLower ''say'' \<or>
                str_includes queryLower ''write'' \<or> str_includes queryLower ''read'' then
          completed (textContentDyn E txt)
        else if str_includes queryLower ''where'' \<or> str_includes queryLower ''location'' then
          completed (Inr (locationQueries mainLs))
        else
          completed (defaultResponseDyn E ls obs txt mainLs mainOs detected))))))))"

subsection \<open>\<open>execute\<close>\<close>

text \<open>
  The two logging statements stand before the \<open>try\<close>: the template literal that converts
  \<open>query\<close> to a string, and \<open>JSON.stringify(imageAnalysis, null, 2)\<close>. What they throw is
  not caught, so the promise is rejected: the result \<open>Inl\<close>. Everything thrown inside the
  \<open>try\<close> becomes the error object. The one-second delay is not modelled.
\<close>

definition OraAction_execute :: "engine \<Rightarrow> jsval \<Rightarrow> jsval \<Rightarrow> exn + ora_reply" where
  "OraAction_execute E imageAnalysis query =
     andThen (toStr E query) (\<lambda>logged.
     andThen (jsonStringify imageAnalysis) (\<lambda>u.
       Inr (case andThen (prepareContextString E imageAnalysis)
                   (generateResponseDyn E imageAnalysis query) of
              Inl e \<Rightarrow> OraError (''Failed to query ORA API: '' @ errorMessage e)
            | Inr reply \<Rightarrow> reply)))"

section \<open>The vision adapter: \<open>GoogleVisionClient\<close>\<close>

text \<open>
  The external annotation service is a parameter: a function from the request (the image
  and the requested feature types) to what \<open>annotateImage\<close> gives back, a thrown error
  (network failure, rejected credentials, a response that cannot be destructured) or the
  first element of its result, with the message of \<open>result.error\<close> when it has one.
  \<open>this.client\<close> is \<open>None\<close> when the constructor found no key file.
\<close>

datatype image = Content "string option" | ImageUri string

record annotateImageResponse =
  error :: "string option"
  labelAnnotations :: "label list option"
  fullTextAnnotation :: "string option"
  localizedObjectAnnotations :: "localizedObject list option"

type_synonym visionApi = "image \<Rightarrow> jsval list \<Rightarrow> exn + annotateImageResponse"

text \<open>\<open>s.split(c)\<close> for a one-character separator.\<close>

fun splitOn :: "char \<Rightarrow> string \<Rightarrow> string list" where
  "splitOn c [] = [[]]"
| "splitOn c (x # xs) =
     (if x = c then [] # splitOn c xs
      else (case splitOn c xs of
              [] \<Rightarrow> [[x]]
            | y # ys \<Rightarrow> (x # y) # ys))"

definition defaultFeatures :: jsval where
  "defaultFeatures = JArr [JStr ''LABEL_DETECTION'', JStr ''TEXT_DETECTION'', JStr ''OBJECT_LOCALIZATION'']"

subsection \<open>Mock responses\<close>

definition personFixture :: AnalysisResult where
  "personFixture =
     \<lparr>labels =
        [\<lparr>description = ''Person'', score = 0.98\<rparr>,
         \<lparr>description = ''Human'', score = 0.97\<rparr>,
         \<lparr>description = ''Face'', score = 0.95\<rparr>,
         \<lparr>description = ''Portrait'', score = 0.92\<rparr>,
         \<lparr>description = ''Photography'', score = 0.90\<rparr>],
      detectedText = [],
      objects =
        [\<lparr>name = ''Person'', score = 0.98,
          boundingPoly = [(100, 50), (500, 50), (500, 700), (100, 700)]\<rparr>,
         \<lparr>name = ''Face'', score = 0.95,
          boundingPoly = [(200, 100), (400, 100), (400, 300), (200, 300)]\<rparr>]\<rparr>"

definition genericFixture :: AnalysisResult where
  "genericFixture =
     \<lparr>labels =
        [\<lparr>description = ''Object'', score = 0.90\<rparr>,
         \<lparr>description = ''Item'', score = 0.85\<rparr>,
         \<lparr>description = ''Product'', score = 0.80\<rparr>,
         \<lparr>description = ''Artifact'', score = 0.75\<rparr>,
         \<lparr>description = ''Material'', score = 0.70\<rparr>],
      detectedText = [],
      objects =
        [\<lparr>name = ''Object'', score = 0.90,
          boundingPoly = [(150, 150), (450, 150), (450, 450), (150, 450)]\<rparr>]\<rparr>"

definition landscapeFixture :: AnalysisResult where
  "landscapeFixture =
     \<lparr>labels =
        [\<lparr>description = ''Sky'', score = 0.95\<rparr>,
         \<lparr>description = ''Cloud'', score = 0.92\<rparr>,
         \<lparr>description = ''Tree'', score = 0.87\<rparr>,
         \<lparr>description = ''Nature'', score = 0.85\<rparr>,
         \<lparr>description = ''Landscape'', score = 0.82\<rparr>],
      detectedText = [],
      objects =
        [\<lparr>name = ''Tree'', score = 0.87,
          boundingPoly = [(10, 10), (100, 10), (100, 200), (10, 200)]\<rparr>,
         \<lparr>name = ''Sky'', score = 0.95,
          boundingPoly = [(0, 0), (800, 0), (800, 300), (0, 300)]\<rparr>]\<rparr>"

definition personSignature :: string where
  "personSignature =
     ''/9j/4AAQSkZJRgABAQAAAQABAAD/2wCEAAkGBxISEBMQEhIWFhEQFxUZEhgSFhcYEhATGhUXGRcRFhUY''"

text \<open>
  \<open>getMockResponse\<close>. The Unsplash image ID that the source extracts first is only logged
  and does not reach the result.
\<close>

definition getMockResponse :: "string \<Rightarrow> AnalysisResult" where
  "getMockResponse imageUrl =
     (if prefix ''data:image/'' imageUrl then
        (if str_includes imageUrl personSignature then personFixture else genericFixture)
      else landscapeFixture)"

subsection \<open>\<open>analyzeImage\<close>\<close>

text \<open>The body of the \<open>try\<close>: what it returns, or what it throws.\<close>

definition imageArgument :: "string \<Rightarrow> image" where
  "imageArgument imageUrl =
     (if prefix ''data:image/'' imageUrl
      then Content (elemAt (splitOn CHR '','' imageUrl) 1)
      else ImageUri imageUrl)"

definition processedResult :: "annotateImageResponse \<Rightarrow> AnalysisResult" where
  "processedResult result =
     \<lparr>labels =
        (case labelAnnotations result of
           Some ls \<Rightarrow> map (\<lambda>l. \<lparr>description = description l, score = label.score l\<rparr>) ls
         | None \<Rightarrow> []),
      detectedText = orElse (fullTextAnnotation result) [],
      objects =
        (case localizedObjectAnnotations result of
           Some obs \<Rightarrow>
             map (\<lambda>ob. \<lparr>name = name ob, score = localizedObject.score ob,
                        boundingPoly = boundingPoly ob\<rparr>) obs
         | None \<Rightarrow> [])\<rparr>"

definition annotate :: "visionApi option \<Rightarrow> string \<Rightarrow> jsval list \<Rightarrow> exn + AnalysisResult" where
  "annotate client imageUrl features =
     (case client of
        None \<Rightarrow> Inl (Error ''Google Vision client not initialized'')
      | Some api \<Rightarrow>
          andThen (api (imageArgument imageUrl) features) (\<lambda>result.
            case error result of
              Some m \<Rightarrow> Inl (Error (''Google Vision API error: '' @ m))
            | None \<Rightarrow> Inr (processedResult result)))"

text \<open>
  \<open>analyzeImage(imageUrl, features = [...])\<close>. The two logging statements before the
  \<open>try\<close> call \<open>imageUrl.substring\<close> and \<open>features.join\<close>: on an argument that is not a string,
  or not an array, or an array with an element that cannot be converted to a string,
  they throw to the caller. Past them \<open>imageUrl\<close> is a string (\<open>url\<close> below) and
  \<open>features\<close> an array. Whatever the \<open>try\<close> throws is replaced by the mock response.
\<close>

definition callJoin :: "engine \<Rightarrow> jsval \<Rightarrow> string \<Rightarrow> exn + string" where
  "callJoin E v sep = (case v of JArr xs \<Rightarrow> joinValues E sep xs | _ \<Rightarrow> Inl TypeError)"

definition analyzeImage ::
    "engine \<Rightarrow> visionApi option \<Rightarrow> jsval \<Rightarrow> jsval \<Rightarrow> exn + AnalysisResult" where
  "analyzeImage E client imageUrl featuresArg =
     (let features = (if featuresArg = JUndefined then defaultFeatures else featuresArg) in
      andThen (callSubstring imageUrl 0 50) (\<lambda>shown.
      andThen (callJoin E features '', '') (\<lambda>listed.
        (let url = (case imageUrl of JStr s \<Rightarrow> s | _ \<Rightarrow> []) in
         Inr (case annotate client url (arrayElements features) of
                Inl e \<Rightarrow> getMockResponse url
              | Inr processed \<Rightarrow> processed)))))"

section \<open>\<open>GoogleVisionAction.execute\<close>\<close>

datatype vision_reply =
  VisionOk AnalysisResult
| VisionFailed string

definition GoogleVisionAction_execute ::
    "engine \<Rightarrow> visionApi option \<Rightarrow> jsval \<Rightarrow> jsval \<Rightarrow> vision_reply" where
  "GoogleVisionAction_execute E client imageUrl features =
     (case andThen (callSubstring imageUrl 0 50)
             (\<lambda>shown. analyzeImage E client imageUrl features) of
        Inl e \<Rightarrow> VisionFailed (errorMessage e)
      | Inr analysisResult \<Rightarrow> VisionOk analysisResult)"

section \<open>The HTTP server\<close>

text \<open>The values that \<open>JSON.stringify\<close> writes into a response.\<close>

definition valueOfLabel :: "label \<Rightarrow> jsval" where
  "valueOfLabel l = JObj [(''description'', JStr (description l)), (''score'', JNum (label.score l))]"

definition valueOfObject :: "localizedObject \<Rightarrow> jsval" where
  "valueOfObject ob =
     JObj [(''name'', JStr (name ob)), (''score'', JNum (localizedObject.score ob)),
           (''boundingPoly'',
            JObj [(''vertices'',
                   JArr (map (\<lambda>v. JObj [(''x'', JNum (fst v)), (''y'', JNum (snd v))])
                          (boundingPoly ob)))])]"

definition valueOfAnalysis :: "AnalysisResult \<Rightarrow> jsval" where
  "valueOfAnalysis a =
     JObj [(''labels'', JArr (map valueOfLabel (labels a))),
           (''text'', JStr (detectedText a)),
           (''objects'', JArr (map valueOfObject (objects a)))]"

definition valueOfVisionReply :: "vision_reply \<Rightarrow> jsval" where
  "valueOfVisionReply r =
     (case r of
        VisionOk d \<Rightarrow> JObj [(''success'', JBool True), (''data'', valueOfAnalysis d)]
      | VisionFailed m \<Rightarrow> JObj [(''success'', JBool False), (''error'', JStr m)])"

definition valueOfReply :: "ora_reply \<Rightarrow> jsval" where
  "valueOfReply r =
     (case r of
        Completion c \<Rightarrow> JObj [(''completion'', JStr c)]
      | OraError m \<Rightarrow> JObj [(''error'', JBool True), (''message'', JStr m)])"

text \<open>
  A request: its method, its path, and its body as \<open>parseRequestBody\<close> sees it, \<open>None\<close>
  when the text is not JSON (the promise is rejected with \<open>Invalid JSON\<close>), otherwise the
  value \<open>JSON.parse\<close> returns, with \<open>{}\<close> for an empty body. A response: the status and
  the value written as JSON. The client of the vision service is the same for every
  request.
\<close>

record request =
  reqMethod :: string
  reqPath :: string
  reqBody :: "jsval option"

datatype content = Json jsval | Html | NoContent

record response =
  status :: nat
  content :: content

definition parseRequestBody :: "request \<Rightarrow> exn + jsval" where
  "parseRequestBody req =
     (case reqBody req of None \<Rightarrow> Inl (Error ''Invalid JSON'') | Some v \<Rightarrow> Inr v)"

definition errorResponse :: "nat \<Rightarrow> string \<Rightarrow> response" where
  "errorResponse code msg = \<lparr>status = code, content = Json (JObj [(''error'', JStr msg)])\<rparr>"

definition analyzeImageRoute :: "engine \<Rightarrow> visionApi option \<Rightarrow> request \<Rightarrow> exn + response" where
  "analyzeImageRoute E client req =
     andThen (parseRequestBody req) (\<lambda>body.
     andThen (getProp body ''imageUrl'') (\<lambda>imageUrl.
       if \<not> truthy imageUrl then Inr (errorResponse 400 ''imageUrl is required'')
       else
         andThen (getProp body ''features'') (\<lambda>features.
           (let result = GoogleVisionAction_execute E client imageUrl
                           (if truthy features then features else defaultFeatures)
            in Inr \<lparr>status = 200, content = Json (valueOfVisionReply result)\<rparr>))))"

definition queryOraRoute :: "engine \<Rightarrow> request \<Rightarrow> exn + response" where
  "queryOraRoute E req =
     andThen (parseRequestBody req) (\<lambda>body.
     andThen (getProp body ''imageAnalysis'') (\<lambda>imageAnalysis.
     andThen (getProp body ''query'') (\<lambda>query.
       if \<not> truthy imageAnalysis \<or> \<not> truthy query then
         Inr (errorResponse 400 ''imageAnalysis and query are required'')
       else
         andThen (OraAction_execute E imageAnalysis query) (\<lambda>result.
           Inr \<lparr>status = 200, content = Json (valueOfReply result)\<rparr>))))"

definition analyzeAndQueryRoute ::
    "engine \<Rightarrow> visionApi option \<Rightarrow> request \<Rightarrow> exn + response" where
  "analyzeAndQueryRoute E client req =
     andThen (parseRequestBody req) (\<lambda>body.
     andThen (getProp body ''imageUrl'') (\<lambda>imageUrl.
     andThen (getProp body ''query'') (\<lambda>query.
       if \<not> truthy imageUrl \<or> \<not> truthy query then
         Inr (errorResponse 400 ''imageUrl and query are required'')
       else
         andThen (getProp body ''features'') (\<lambda>features.
           (case GoogleVisionAction_execute E client imageUrl
                   (if truthy features then features else defaultFeatures) of
              VisionFailed m \<Rightarrow> Inr (errorResponse 500 (''Failed to analyze image: '' @ m))
            | VisionOk d \<Rightarrow>
                andThen (OraAction_execute E (valueOfAnalysis d) query) (\<lambda>oraResponse.
                  Inr \<lparr>status = 200,
                       content =
                         Json (JObj [(''success'', JBool True),
                                     (''imageAnalysis'', valueOfAnalysis d),
                                     (''oraResponse'', valueOfReply oraResponse)])\<rparr>))))))"

text \<open>
  The request handler: the routes are tried in order inside one \<open>try\<close>, and whatever
  they throw is answered with status 500 and the error's message.
\<close>

definition handleRequest :: "engine \<Rightarrow> visionApi option \<Rightarrow> request \<Rightarrow> response" where
  "handleRequest E client req =
     (if reqMethod req = ''OPTIONS'' then \<lparr>status = 204, content = NoContent\<rparr>
      else
        (case
           (if reqPath req = ''/api/analyze-image'' \<and> reqMethod req = ''POST'' then
              analyzeImageRoute E client req
            else if reqPath req = ''/api/query-ora'' \<and> reqMethod req = ''POST'' then
              queryOraRoute E req
            else if reqPath req = ''/api/analyze-and-query'' \<and> reqMethod req = ''POST'' then
              analyzeAndQueryRoute E client req
            else if reqPath req = ''/'' \<and> reqMethod req = ''GET'' then
              Inr \<lparr>status = 200, content = Html\<rparr>
            else Inr (errorResponse 404 ''Not Found''))
         of
           Inl e \<Rightarrow> errorResponse 500 (errorMessage e)
         | Inr resp \<Rightarrow> resp))"

section \<open>Example inputs\<close>

definition rolexImage :: AnalysisResult where
  "rolexImage = \<lparr>labels = [\<lparr>description = ''Rolex'', score = 0.9\<rparr>], detectedText = [], objects = []\<rparr>"

definition sixLabels :: AnalysisResult where
  "sixLabels =
     \<lparr>labels = [\<lparr>description = ''Dial'', score = 0.9\<rparr>, \<lparr>description = ''Strap'', score = 0.9\<rparr>,
                \<lparr>description = ''Metal'', score = 0.9\<rparr>, \<lparr>description = ''Glass'', score = 0.9\<rparr>,
                \<lparr>description = ''Steel'', score = 0.9\<rparr>, \<lparr>description = ''Watch'', score = 0.8\<rparr>],
      detectedText = [], objects = []\<rparr>"

definition watchImage :: AnalysisResult where
  "watchImage =
     \<lparr>labels = [\<lparr>description = ''Watch'', score = 0.95\<rparr>, \<lparr>description = ''Analog watch'', score = 0.9\<rparr>,
                \<lparr>description = ''Strap'', score = 0.8\<rparr>],
      detectedText = [], objects = []\<rparr>"

definition emptyAnalysis :: AnalysisResult where
  "emptyAnalysis = \<lparr>labels = [], detectedText = [], objects = []\<rparr>"

definition objectImage :: AnalysisResult where
  "objectImage =
     \<lparr>labels = [\<lparr>description = ''Object'', score = 0.9\<rparr>], detectedText = [],
      objects = [\<lparr>name = ''Object'', score = 0.9, boundingPoly = []\<rparr>]\<rparr>"

definition failingApi :: visionApi where
  "failingApi img features = Inl (Error ''socket hang up'')"

definition quotaApi :: visionApi where
  "quotaApi img features =
     Inr \<lparr>error = Some ''Quota exceeded'', labelAnnotations = None, fullTextAnnotation = None,
          localizedObjectAnnotations = None\<rparr>"

definition personDataUri :: string where
  "personDataUri = ''data:image/jpeg;base64,'' @ personSignature @ ''GRgYHSggGBolHRUV''"

definition plainAnalysis :: jsval where
  "plainAnalysis = JObj [(''labels'', JArr []), (''text'', JStr []), (''objects'', JArr [])]"

definition bigIntAnalysis :: jsval where
  "bigIntAnalysis =
     JObj [(''labels'', JArr []), (''text'', JStr []), (''objects'', JArr []),
           (''requestId'', JBigInt 7)]"

definition badScoreAnalysis :: jsval where
  "badScoreAnalysis =
     JObj [(''labels'', JArr [JObj [(''description'', JStr ''Cat''), (''score'', JStr ''high'')]]),
           (''text'', JStr []), (''objects'', JArr [])]"

definition notSequenceAnalysis :: jsval where
  "notSequenceAnalysis =
     JObj [(''labels'', JStr ''cat''), (''text'', JStr []), (''objects'', JArr [])]"

text \<open>A POST request with a JSON body.\<close>

definition post :: "string \<Rightarrow> jsval \<Rightarrow> request" where
  "post path body = \<lparr>reqMethod = ''POST'', reqPath = path, reqBody = Some body\<rparr>"

section \<open>Properties\<close>

subsection \<open>Helper facts\<close>

lemma str_includes_sublist: "str_includes s t = sublist t s"
  by (induction s) (auto simp: sublist_Cons_right)

lemma str_includes_append: "str_includes (p @ t @ q) t"
  by (simp add: str_includes_sublist)

lemma toLowerCase_literals:
  "toLowerCase ''Rolex'' = ''rolex''"
  "toLowerCase ''Watch'' = ''watch''"
  "toLowerCase ''Analog watch'' = ''analog watch''"
  "toLowerCase ''Strap'' = ''strap''"
  "toLowerCase ''Dial'' = ''dial''"
  "toLowerCase ''Metal'' = ''metal''"
  "toLowerCase ''Glass'' = ''glass''"
  "toLowerCase ''Steel'' = ''steel''"
  "toLowerCase ''Object'' = ''object''"
  by (simp_all add: toLowerCase_def toLowerChar_def)

lemma generateResponse_classify:
  "generateResponse a q ctx =
     Completion
       (if luxuryDetected a then
          luxuryItemIdentification (labels a) (mainLabels a) (mainObjects a) (detectedLuxuryItems a)
        else
          (case classifyQuery (toLowerCase q) of
             Animal \<Rightarrow> animalIdentification (mainLabels a) (allEntities a)
           | ObjectId \<Rightarrow>
               objectIdentification (objects a) (mainLabels a) (detectedText a)
                 (detectedLuxuryItems a)
           | Color \<Rightarrow> colorQueries (mainLabels a) (mainObjects a)
           | TextContent \<Rightarrow> textContent (detectedText a)
           | Location \<Rightarrow> locationQueries (mainLabels a)
           | Default \<Rightarrow>
               defaultResponse (labels a) (objects a) (detectedText a) (mainLabels a)
                 (mainObjects a) (detectedLuxuryItems a)))"
  by (simp add: generateResponse_def classifyQuery_def luxuryDetected_def Let_def)

subsection \<open>Luxury detection comes first\<close>

lemma luxuryDetected_entity:
  assumes "e \<in> set (allEntities a)" and "e \<in> set luxuryItems"
  shows "luxuryDetected a"
proof -
  from assms have "e \<in> set (detectedLuxuryItems a)"
    by (simp add: detectedLuxuryItems_def)
  then have "detectedLuxuryItems a \<noteq> []" by auto
  then show ?thesis by (simp add: luxuryDetected_def)
qed



subsection \<open>The watch sub-case\<close>

lemma watchCompletion_timepiece: "str_includes (watchCompletion details) ''timepiece''"
proof -
  have "watchCompletion details =
          ''This image shows a luxury '' @ ''timepiece''
          @ (''. It appears to be an analog watch with the following characteristics: ''
             @ join '', '' details
             @ ''. Watches like this are precision instruments that combine craftsmanship with functionality, often serving as both a practical tool and a fashion statement or collectible item.'')"
    by (simp add: watchCompletion_def)
  then show ?thesis
    by (simp only: str_includes_append)
qed

text \<open>
  Claim C2 speaks of every analysis that contains a label "Watch". The source looks at the
  first five labels only (\<open>labels.slice(0, 5)\<close>): with "Watch" as the sixth label and no
  other luxury entity, the answer is the generic sentence and has no "timepiece" in it.
\<close>

theorem watch_beyond_top5_counterexample:
  "list_ex (\<lambda>l. toLowerCase (description l) = ''watch'') (labels sixLabels) \<and>
   generateResponse sixLabels ''describe it'' [] =
     Completion ''This image shows dial with features including strap, metal, glass, steel. '' \<and>
   \<not> str_includes (completion (generateResponse sixLabels ''describe it'' [])) ''timepiece''"
proof -
  have ml: "mainLabels sixLabels = [''dial'', ''strap'', ''metal'', ''glass'', ''steel'']"
    by (simp add: mainLabels_def sixLabels_def toLowerCase_literals)
  have mo: "mainObjects sixLabels = []"
    by (simp add: mainObjects_def sixLabels_def)
  have ob: "objects sixLabels = []" and dt: "detectedText sixLabels = []"
    by (simp_all add: sixLabels_def)
  have d: "detectedLuxuryItems sixLabels = []"
    by (simp add: detectedLuxuryItems_def allEntities_def ml mo luxuryItems_def)
  have nl: "\<not> luxuryDetected sixLabels"
    by (simp add: luxuryDetected_def d ml)
  have q: "classifyQuery (toLowerCase ''describe it'') = Default"
    by (simp add: classifyQuery_def toLowerCase_def toLowerChar_def)
  have g: "genericResponse [] [] [''dial'', ''strap'', ''metal'', ''glass'', ''steel''] =
             ''This image shows dial with features including strap, metal, glass, steel. ''"
    by (simp add: genericResponse_def)
  have sc: "specificCategory [''dial'', ''strap'', ''metal'', ''glass'', ''steel''] [] = None"
    by (simp add: specificCategory_def)
  have r: "generateResponse sixLabels ''describe it'' [] =
     Completion ''This image shows dial with features including strap, metal, glass, steel. ''"
    by (simp add: generateResponse_classify nl q defaultResponse_def d ml mo ob dt sc g)
  have w: "list_ex (\<lambda>l. toLowerCase (description l) = ''watch'') (labels sixLabels)"
    by (simp add: sixLabels_def toLowerCase_literals)
  show ?thesis
    by (simp add: r w)
qed

text \<open>What \<open>watchDetails\<close> lists.\<close>

lemma watchDetails_length: "length (watchDetails ls) \<le> 5"
  by (simp add: watchDetails_def)

lemma watchDetails_excludes:
  "d \<in> set (watchDetails ls) \<Longrightarrow> toLowerCase d \<noteq> ''watch'' \<and> toLowerCase d \<noteq> ''analog watch''"
  by (auto simp: watchDetails_def dest!: in_set_takeD)

lemma watchDetails_labels:
  "d \<in> set (watchDetails ls) \<Longrightarrow> d \<in> description ` set ls"
  by (auto simp: watchDetails_def dest!: in_set_takeD)

text \<open>
  Claim C2, amended. When one of the first five labels has the description "Watch" (in any
  mix of upper and lower case), \<open>generateResponse\<close> returns the watch sentence for every
  query. The sentence contains the word "timepiece"; the characteristics it lists are at
  most five label descriptions, none of which lower-cases to "watch" or "analog watch".
\<close>

theorem watch_label_in_top5:
  assumes "l \<in> set (take 5 (labels a))" and "toLowerCase (description l) = ''watch''"
  shows "generateResponse a q ctx = Completion (watchCompletion (watchDetails (labels a))) \<and>
         str_includes (completion (generateResponse a q ctx)) ''timepiece'' \<and>
         length (watchDetails (labels a)) \<le> 5 \<and>
         set (watchDetails (labels a)) \<subseteq> description ` set (labels a) \<and>
         list_all (\<lambda>d. toLowerCase d \<noteq> ''watch'' \<and> toLowerCase d \<noteq> ''analog watch'')
           (watchDetails (labels a))"
proof -
  from assms have ml: "''watch'' \<in> set (mainLabels a)"
    by (force simp: mainLabels_def)
  then have wd: "watchDetected (mainLabels a) (mainObjects a)"
    by (simp add: watchDetected_def)
  from ml have "''watch'' \<in> set (allEntities a)"
    by (simp add: allEntities_def)
  moreover have "''watch'' \<in> set luxuryItems"
    by (simp add: luxuryItems_def)
  ultimately have lx: "luxuryDetected a"
    by (rule luxuryDetected_entity)
  have r: "generateResponse a q ctx = Completion (watchCompletion (watchDetails (labels a)))"
    by (simp add: generateResponse_classify lx luxuryItemIdentification_def wd)
  show ?thesis
    using watchDetails_excludes [of _ "labels a"] watchDetails_labels [of _ "labels a"]
    by (auto simp: r watchCompletion_timepiece watchDetails_length list_all_iff)
qed

theorem watch_label_in_top5_witness:
  "\<lparr>description = ''Watch'', score = 0.95\<rparr> \<in> set (take 5 (labels watchImage)) \<and>
   toLowerCase (description \<lparr>description = ''Watch'', score = 0.95\<rparr>) = ''watch'' \<and>
   watchDetails (labels watchImage) = [''Strap''] \<and>
   generateResponse watchImage ''what color is it'' [] =
     Completion ''This image shows a luxury timepiece. It appears to be an analog watch with the following characteristics: Strap. Watches like this are precision instruments that combine craftsmanship with functionality, often serving as both a practical tool and a fashion statement or collectible item.''"
proof -
  have m: "\<lparr>description = ''Watch'', score = 0.95\<rparr> \<in> set (take 5 (labels watchImage))"
    by (simp add: watchImage_def)
  have l: "toLowerCase (description \<lparr>description = ''Watch'', score = 0.95\<rparr>) = ''watch''"
    by (simp add: toLowerCase_literals)
  have d: "watchDetails (labels watchImage) = [''Strap'']"
    by (simp add: watchDetails_def watchImage_def toLowerCase_literals)
  from watch_label_in_top5 [OF m l, of "''what color is it''" "[]"] m l d
  show ?thesis
    by (simp add: watchCompletion_def)
qed

subsection \<open>Query classification\<close>

text \<open>
  Claim C3. The example of the specification: one label "Cat" with score 0.9, no text, one
  object "Cat", and the query "what animal is this" give exactly the cat sentence.
\<close>

theorem cat_example:
  "generateResponse
     \<lparr>labels = [\<lparr>description = ''Cat'', score = 0.9\<rparr>], detectedText = [],
      objects = [\<lparr>name = ''Cat'', score = 0.9, boundingPoly = []\<rparr>]\<rparr>
     ''what animal is this'' ctx =
   Completion ''The image shows a cat. Cats are domestic felines known for their independent nature and grooming habits. They are popular pets worldwide.''"
  by (simp add: generateResponse_def detectedLuxuryItems_def allEntities_def
      mainLabels_def mainObjects_def luxuryItems_def animalIdentification_def
      toLowerCase_def toLowerChar_def)

text \<open>
  Claim C4. A query whose lower-cased text contains an animal keyword and a colour keyword
  is classified as an animal query, never as a colour query: when the luxury branch does
  not take the image, the completion is that of the animal branch.
\<close>

theorem animal_before_color:
  assumes "str_includes (toLowerCase q) ''animal'' \<or> str_includes (toLowerCase q) ''pet''"
    and "str_includes (toLowerCase q) ''color'' \<or> str_includes (toLowerCase q) ''colour''"
  shows "classifyQuery (toLowerCase q) = Animal \<and>
         classifyQuery (toLowerCase q) \<noteq> Color \<and>
         generateResponse a q ctx =
           Completion
             (if luxuryDetected a then
                luxuryItemIdentification (labels a) (mainLabels a) (mainObjects a)
                  (detectedLuxuryItems a)
              else animalIdentification (mainLabels a) (allEntities a))"
proof -
  from assms(1) have c: "classifyQuery (toLowerCase q) = Animal"
    by (simp add: classifyQuery_def)
  then show ?thesis
    by (simp add: generateResponse_classify)
qed

theorem animal_before_color_witness:
  "(str_includes (toLowerCase ''What COLOR is the animal?'') ''animal'' \<or>
    str_includes (toLowerCase ''What COLOR is the animal?'') ''pet'') \<and>
   (str_includes (toLowerCase ''What COLOR is the animal?'') ''color'' \<or>
    str_includes (toLowerCase ''What COLOR is the animal?'') ''colour'') \<and>
   classifyQuery (toLowerCase ''What COLOR is the animal?'') = Animal \<and>
   generateResponse emptyAnalysis ''What COLOR is the animal?'' [] =
     Completion ''I don't see any animals in this image. The image appears to show a scene without animals.''"
proof -
  have l: "toLowerCase ''What COLOR is the animal?'' = ''what color is the animal?''"
    by (simp add: toLowerCase_def toLowerChar_def)
  have h1: "str_includes (toLowerCase ''What COLOR is the animal?'') ''animal'' \<or>
            str_includes (toLowerCase ''What COLOR is the animal?'') ''pet''"
    unfolding l by simp
  have h2: "str_includes (toLowerCase ''What COLOR is the animal?'') ''color'' \<or>
            str_includes (toLowerCase ''What COLOR is the animal?'') ''colour''"
    unfolding l by simp
  have ml: "mainLabels emptyAnalysis = []" and mo: "mainObjects emptyAnalysis = []"
    by (simp_all add: mainLabels_def mainObjects_def emptyAnalysis_def)
  have nl: "\<not> luxuryDetected emptyAnalysis"
    by (simp add: luxuryDetected_def detectedLuxuryItems_def allEntities_def ml mo)
  have an: "animalIdentification [] [] =
              ''I don't see any animals in this image. The image appears to show a scene without animals.''"
    by (simp add: animalIdentification_def elemAt_def truthyStr_def)
  from animal_before_color [OF h1 h2, of emptyAnalysis "[]"] h1 h2
  show ?thesis
    by (simp add: nl an ml mo allEntities_def)
qed

text \<open>
  Claim C5. For the analysis with no labels, no text and no objects, and a query whose
  lower-cased text contains none of the fifteen intent keywords, \<open>generateResponse\<close> returns
  the no-identifiable-objects sentence.
\<close>

theorem empty_analysis_default:
  assumes "list_all (\<lambda>k. \<not> str_includes (toLowerCase q) k)
             [''animal'', ''pet'', ''object'', ''thing'', ''what is'', ''what's in'', ''show me'',
              ''color'', ''colour'', ''text'', ''say'', ''write'', ''read'', ''where'', ''location'']"
  shows "generateResponse \<lparr>labels = [], detectedText = [], objects = []\<rparr> q ctx =
           Completion ''This image doesn't contain clearly identifiable objects or features that I can describe with confidence.''"
proof -
  let ?a = "\<lparr>labels = [], detectedText = [], objects = []\<rparr>"
  from assms have c: "classifyQuery (toLowerCase q) = Default"
    by (simp add: classifyQuery_def)
  have ml: "mainLabels ?a = []" and mo: "mainObjects ?a = []"
    by (simp_all add: mainLabels_def mainObjects_def)
  have d: "detectedLuxuryItems ?a = []"
    by (simp add: detectedLuxuryItems_def allEntities_def ml mo)
  have nl: "\<not> luxuryDetected ?a"
    by (simp add: luxuryDetected_def d ml)
  have g: "defaultResponse [] [] [] [] [] [] =
             ''This image doesn't contain clearly identifiable objects or features that I can describe with confidence.''"
    by (simp add: defaultResponse_def specificCategory_def genericResponse_def
        noFeaturesSentence_def)
  show ?thesis
    by (simp add: generateResponse_classify c nl ml mo d g)
qed

theorem empty_analysis_default_witness:
  "list_all (\<lambda>k. \<not> str_includes (toLowerCase ''Hello there'') k)
     [''animal'', ''pet'', ''object'', ''thing'', ''what is'', ''what's in'', ''show me'',
      ''color'', ''colour'', ''text'', ''say'', ''write'', ''read'', ''where'', ''location''] \<and>
   generateResponse \<lparr>labels = [], detectedText = [], objects = []\<rparr> ''Hello there'' [] =
     Completion ''This image doesn't contain clearly identifiable objects or features that I can describe with confidence.''"
proof -
  have l: "toLowerCase ''Hello there'' = ''hello there''"
    by (simp add: toLowerCase_def toLowerChar_def)
  have h: "list_all (\<lambda>k. \<not> str_includes (toLowerCase ''Hello there'') k)
     [''animal'', ''pet'', ''object'', ''thing'', ''what is'', ''what's in'', ''show me'',
      ''color'', ''colour'', ''text'', ''say'', ''write'', ''read'', ''where'', ''location'']"
    unfolding l by simp
  from empty_analysis_default [OF h, of "[]"] h show ?thesis
    by simp
qed

subsection \<open>The luxury sentence of the object branch\<close>

lemma not_luxury_detected: "\<not> luxuryDetected a \<Longrightarrow> detectedLuxuryItems a = []"
  by (simp add: luxuryDetected_def)

text \<open>No other sentence of the synthesizer begins like the nested luxury sentence.\<close>

lemma luxuryItemIdentification_prefix:
  "\<not> prefix ''The main object in this image is a luxury item''
       (luxuryItemIdentification ls mainLs mainOs detected)"
  by (simp add: luxuryItemIdentification_def watchCompletion_def luxuryCompletion_def)

lemma animalIdentification_prefix:
  "\<not> prefix ''The main object in this image is a luxury item''
       (animalIdentification mainLs entities)"
  by (simp add: animalIdentification_def Let_def)

lemma objectIdentification_prefix:
  "\<not> prefix ''The main object in this image is a luxury item''
       (objectIdentification obs mainLs txt [])"
  by (simp add: objectIdentification_def Let_def)

lemma colorQueries_prefix:
  "\<not> prefix ''The main object in this image is a luxury item'' (colorQueries mainLs mainOs)"
  by (simp add: colorQueries_def Let_def)

lemma textContent_prefix:
  "\<not> prefix ''The main object in this image is a luxury item'' (textContent txt)"
  by (simp add: textContent_def)

lemma locationQueries_prefix:
  "\<not> prefix ''The main object in this image is a luxury item'' (locationQueries mainLs)"
  by (simp add: locationQueries_def)

lemma defaultResponse_prefix:
  "\<not> prefix ''The main object in this image is a luxury item''
       (defaultResponse ls obs txt mainLs mainOs detected)"
  by (simp add: defaultResponse_def luxuryItemIdentification_prefix specificCategory_def
      landscapeSentence_def genericResponse_def noFeaturesSentence_def Let_def)

text \<open>
  Claim C9. The luxury sub-case inside the object-identification branch is unreachable.
  When \<open>detectedLuxuryItems\<close> is non-empty the luxury branch at the head of the chain
  returns; the object branch runs only when the luxury guard failed and the query is an
  object query, and then \<open>detectedLuxuryItems\<close> is empty; and no completion of
  \<open>generateResponse\<close> begins with "The main object in this image is a luxury item".
\<close>

theorem nested_luxury_object_case_unreachable:
  "(length (detectedLuxuryItems a) > 0 \<longrightarrow>
      generateResponse a q ctx =
        Completion (luxuryItemIdentification (labels a) (mainLabels a) (mainObjects a)
                      (detectedLuxuryItems a))) \<and>
   (\<not> luxuryDetected a \<and> classifyQuery (toLowerCase q) = ObjectId \<longrightarrow>
      detectedLuxuryItems a = [] \<and>
      generateResponse a q ctx =
        Completion (objectIdentification (objects a) (mainLabels a) (detectedText a) [])) \<and>
   \<not> prefix ''The main object in this image is a luxury item''
       (completion (generateResponse a q ctx))"
proof (intro conjI impI)
  assume "length (detectedLuxuryItems a) > 0"
  then have "luxuryDetected a" by (simp add: luxuryDetected_def)
  then show "generateResponse a q ctx =
        Completion (luxuryItemIdentification (labels a) (mainLabels a) (mainObjects a)
                      (detectedLuxuryItems a))"
    by (simp add: generateResponse_classify)
next
  assume h: "\<not> luxuryDetected a \<and> classifyQuery (toLowerCase q) = ObjectId"
  then show "detectedLuxuryItems a = []"
    by (simp add: not_luxury_detected)
  with h show "generateResponse a q ctx =
        Completion (objectIdentification (objects a) (mainLabels a) (detectedText a) [])"
    by (simp add: generateResponse_classify)
next
  show "\<not> prefix ''The main object in this image is a luxury item''
          (completion (generateResponse a q ctx))"
  proof (cases "luxuryDetected a")
    case True
    then show ?thesis
      by (simp only: generateResponse_classify if_True ora_reply.sel
          luxuryItemIdentification_prefix not_False_eq_True)
  next
    case False
    then have d: "detectedLuxuryItems a = []" by (rule not_luxury_detected)
    show ?thesis
      using False
      by (cases "classifyQuery (toLowerCase q)")
        (simp_all only: generateResponse_classify if_False ora_reply.sel intent.case d
          animalIdentification_prefix objectIdentification_prefix colorQueries_prefix
          textContent_prefix locationQueries_prefix defaultResponse_prefix not_False_eq_True)
  qed
qed

theorem nested_luxury_object_case_unreachable_witness:
  "length (detectedLuxuryItems rolexImage) > 0 \<and>
   generateResponse rolexImage ''what is this thing'' [] =
     Completion (luxuryCompletion [''rolex''] [''rolex'']) \<and>
   \<not> luxuryDetected objectImage \<and> classifyQuery (toLowerCase ''what is this thing'') = ObjectId \<and>
   detectedLuxuryItems objectImage = [] \<and>
   generateResponse objectImage ''what is this thing'' [] =
     Completion ''The main objects in this image are: Object. The image primarily shows object with 1 identifiable objects.''"
proof -
  have ml: "mainLabels rolexImage = [''rolex'']" and mo: "mainObjects rolexImage = []"
    by (simp_all add: mainLabels_def mainObjects_def rolexImage_def toLowerCase_literals)
  have d: "detectedLuxuryItems rolexImage = [''rolex'']"
    by (simp add: detectedLuxuryItems_def allEntities_def ml mo luxuryItems_def)
  have h1: "length (detectedLuxuryItems rolexImage) > 0"
    by (simp add: d)
  have oml: "mainLabels objectImage = [''object'']" and omo: "mainObjects objectImage = [''object'']"
    by (simp_all add: mainLabels_def mainObjects_def objectImage_def toLowerCase_literals)
  have od: "detectedLuxuryItems objectImage = []"
    by (simp add: detectedLuxuryItems_def allEntities_def oml omo luxuryItems_def)
  have nl: "\<not> luxuryDetected objectImage"
    by (simp add: luxuryDetected_def od oml)
  have c: "classifyQuery (toLowerCase ''what is this thing'') = ObjectId"
    by (simp add: classifyQuery_def toLowerCase_def toLowerChar_def)
  have ob: "objectIdentification (objects objectImage) [''object''] (detectedText objectImage) [] =
              ''The main objects in this image are: Object. The image primarily shows object with 1 identifiable objects.''"
    by (simp add: objectIdentification_def objectImage_def elemAt_def orElse_def
        string_of_nat.simps)
  have w: "\<not> watchDetected [''rolex''] []"
    by (simp add: watchDetected_def)
  from nested_luxury_object_case_unreachable [of rolexImage "''what is this thing''" "[]"]
    nested_luxury_object_case_unreachable [of objectImage "''what is this thing''" "[]"]
    h1 nl c
  show ?thesis
    by (simp add: d ml mo od oml ob luxuryItemIdentification_def w)
qed

subsection \<open>Conversions that do not throw\<close>

lemma andThen_Inr [simp]: "andThen (Inr x) f = f x"
  by (simp add: andThen_def)

lemma andThen_Inl [simp]: "andThen (Inl e) f = Inl e"
  by (simp add: andThen_def)

lemma mapM_Nil [simp]: "mapM f [] = Inr []"
  by (simp add: mapM_def)

lemma mapM_Cons [simp]:
  "mapM f (x # xs) = andThen (f x) (\<lambda>y. andThen (mapM f xs) (\<lambda>ys. Inr (y # ys)))"
  by (simp add: mapM_def)

lemma mapM_returns:
  "(\<And>x. x \<in> set xs \<Longrightarrow> \<exists>y. f x = Inr y) \<Longrightarrow> \<exists>ys. mapM f xs = Inr ys"
proof (induction xs)
  case Nil
  show ?case by simp
next
  case (Cons x xs)
  from Cons.prems obtain y where y: "f x = Inr y" by force
  from Cons obtain ys where ys: "mapM f xs = Inr ys" by force
  show ?case by (simp add: y ys)
qed

text \<open>A convertible value has a string; any other value makes the conversion throw.\<close>

lemma toStr_convertible: "convertible v \<Longrightarrow> \<exists>s. toStr E v = Inr s"
proof (induction v)
  case (JArr xs)
  have "\<exists>ys. mapM (\<lambda>x. if x = JUndefined \<or> x = JNull then Inr [] else toStr E x) xs = Inr ys"
  proof (rule mapM_returns)
    fix x assume x: "x \<in> set xs"
    with JArr.prems have "convertible x" by (simp add: list_all_iff)
    with JArr.IH [OF x] show "\<exists>y. (if x = JUndefined \<or> x = JNull then Inr [] else toStr E x) = Inr y"
      by simp
  qed
  then show ?case by (auto simp: mapM_def)
qed simp_all

lemma joinValues_convertible:
  assumes "list_all convertible xs"
  shows "\<exists>s. joinValues E sep xs = Inr s"
proof -
  have "\<exists>ys. mapM (\<lambda>x. if x = JUndefined \<or> x = JNull then Inr [] else toStr E x) xs = Inr ys"
  proof (rule mapM_returns)
    fix x assume "x \<in> set xs"
    with assms have "convertible x" by (simp add: list_all_iff)
    then show "\<exists>y. (if x = JUndefined \<or> x = JNull then Inr [] else toStr E x) = Inr y"
      using toStr_convertible [of x E] by simp
  qed
  then show ?thesis by (auto simp: joinValues_def)
qed


subsection \<open>The vision adapter falls back to mock data\<close>

text \<open>The three ways the \<open>try\<close> of \<open>analyzeImage\<close> fails.\<close>

lemma annotate_failure:
  assumes "case client of
             None \<Rightarrow> True
           | Some api \<Rightarrow>
               (case api (imageArgument ref) fs of
                  Inl e \<Rightarrow> True
                | Inr result \<Rightarrow> error result \<noteq> None)"
  shows "\<exists>e. annotate client ref fs = Inl e"
  using assms
  by (auto simp: annotate_def andThen_def split: sum.splits option.splits)

text \<open>
  Claim C6 speaks of every feature list. The log statement before the \<open>try\<close> of
  \<open>analyzeImage\<close> calls \<open>features.join(', ')\<close>, which converts each element to a string;
  on the list \<open>[{"toString": 1}]\<close>, which a request body can carry, the conversion throws
  a \<open>TypeError\<close> that nothing in \<open>analyzeImage\<close> catches, with the client not
  initialized as with any other client.
\<close>

theorem analyzeImage_throws_counterexample:
  "analyzeImage sampleEngine None (JStr ''https://example.com/sample-image.jpg'')
     (JArr [JObj [(''toString'', JNum 1)]]) = Inl TypeError \<and>
   analyzeImage sampleEngine (Some failingApi) (JStr ''https://example.com/sample-image.jpg'')
     (JArr [JStr ''LABEL_DETECTION'', JObj [(''toString'', JNum 1)]]) = Inl TypeError"
  by (simp add: analyzeImage_def callSubstring_def callJoin_def joinValues_def)

text \<open>
  Claim C6, amended. For a string \<open>imageUrl\<close> and a feature list whose elements convert
  to strings, as feature names do (or no list, which stands for the default one), when
  the client is not initialized, the external call throws, or its response carries an
  error, \<open>analyzeImage\<close> returns and does not throw; what it returns is the person
  fixture for a \<open>data:image/\<close> reference that contains the signature, the generic object
  fixture for any other \<open>data:image/\<close> reference, and the landscape fixture (Sky, Cloud,
  Tree, Nature, Landscape) for every other reference.
\<close>

theorem analyzeImage_falls_back:
  assumes "features = JUndefined \<or> (features = JArr xs \<and> list_all convertible xs)"
    and "fs = arrayElements (if features = JUndefined then defaultFeatures else features)"
    and "case client of
             None \<Rightarrow> True
           | Some api \<Rightarrow>
               (case api (imageArgument ref) fs of
                  Inl e \<Rightarrow> True
                | Inr result \<Rightarrow> error result \<noteq> None)"
  shows "analyzeImage E client (JStr ref) features =
           Inr (if prefix ''data:image/'' ref then
                  (if str_includes ref
                        ''/9j/4AAQSkZJRgABAQAAAQABAAD/2wCEAAkGBxISEBMQEhIWFhEQFxUZEhgSFhcYEhATGhUXGRcRFhUY''
                   then
                     \<lparr>labels =
                        [\<lparr>description = ''Person'', score = 0.98\<rparr>,
                         \<lparr>description = ''Human'', score = 0.97\<rparr>,
                         \<lparr>description = ''Face'', score = 0.95\<rparr>,
                         \<lparr>description = ''Portrait'', score = 0.92\<rparr>,
                         \<lparr>description = ''Photography'', score = 0.90\<rparr>],
                      detectedText = [],
                      objects =
                        [\<lparr>name = ''Person'', score = 0.98,
                          boundingPoly = [(100, 50), (500, 50), (500, 700), (100, 700)]\<rparr>,
                         \<lparr>name = ''Face'', score = 0.95,
                          boundingPoly = [(200, 100), (400, 100), (400, 300), (200, 300)]\<rparr>]\<rparr>
                   else
                     \<lparr>labels =
                        [\<lparr>description = ''Object'', score = 0.90\<rparr>,
                         \<lparr>description = ''Item'', score = 0.85\<rparr>,
                         \<lparr>description = ''Product'', score = 0.80\<rparr>,
                         \<lparr>description = ''Artifact'', score = 0.75\<rparr>,
                         \<lparr>description = ''Material'', score = 0.70\<rparr>],
                      detectedText = [],
                      objects =
                        [\<lparr>name = ''Object'', score = 0.90,
                          boundingPoly = [(150, 150), (450, 150), (450, 450), (150, 450)]\<rparr>]\<rparr>)
                else
                  \<lparr>labels =
                     [\<lparr>description = ''Sky'', score = 0.95\<rparr>,
                      \<lparr>description = ''Cloud'', score = 0.92\<rparr>,
                      \<lparr>description = ''Tree'', score = 0.87\<rparr>,
                      \<lparr>description = ''Nature'', score = 0.85\<rparr>,
                      \<lparr>description = ''Landscape'', score = 0.82\<rparr>],
                   detectedText = [],
                   objects =
                     [\<lparr>name = ''Tree'', score = 0.87,
                       boundingPoly = [(10, 10), (100, 10), (100, 200), (10, 200)]\<rparr>,
                      \<lparr>name = ''Sky'', score = 0.95,
                       boundingPoly = [(0, 0), (800, 0), (800, 300), (0, 300)]\<rparr>]\<rparr>)"
proof -
  from annotate_failure [OF assms(3)] obtain e where e: "annotate client ref fs = Inl e" ..
  let ?features = "if features = JUndefined then defaultFeatures else features"
  obtain ys where ys: "?features = JArr ys" and c: "list_all convertible ys"
    using assms(1) by (auto simp: defaultFeatures_def)
  from joinValues_convertible [OF c] obtain s where "joinValues E '', '' ys = Inr s" ..
  then have s: "callJoin E ?features '', '' = Inr s"
    by (simp only: ys callJoin_def jsval.case)
  have "analyzeImage E client (JStr ref) features = Inr (getMockResponse ref)"
    using e s assms(2)
    by (simp add: analyzeImage_def Let_def callSubstring_def)
  then show ?thesis
    by (simp add: getMockResponse_def personSignature_def personFixture_def genericFixture_def
        landscapeFixture_def)
qed

theorem analyzeImage_falls_back_witness:
  "analyzeImage sampleEngine None (JStr ''https://example.com/sample-image.jpg'') JUndefined =
     Inr landscapeFixture \<and>
   analyzeImage sampleEngine (Some failingApi) (JStr personDataUri)
       (JArr [JStr ''LABEL_DETECTION'']) =
     Inr personFixture \<and>
   analyzeImage sampleEngine (Some quotaApi) (JStr ''data:image/png;base64,iVBORw0KGgo='')
       (JArr [JStr ''LABEL_DETECTION'']) =
     Inr genericFixture"
proof -
  have p1: "\<not> prefix ''data:image/'' ''https://example.com/sample-image.jpg''"
    by simp
  have p2: "prefix ''data:image/'' personDataUri"
    by (simp add: personDataUri_def personSignature_def)
  have s2: "str_includes personDataUri
              ''/9j/4AAQSkZJRgABAQAAAQABAAD/2wCEAAkGBxISEBMQEhIWFhEQFxUZEhgSFhcYEhATGhUXGRcRFhUY''"
    unfolding personDataUri_def personSignature_def by (rule str_includes_append)
  have p3: "prefix ''data:image/'' ''data:image/png;base64,iVBORw0KGgo=''"
    by simp
  have s3: "\<not> str_includes ''data:image/png;base64,iVBORw0KGgo=''
              ''/9j/4AAQSkZJRgABAQAAAQABAAD/2wCEAAkGBxISEBMQEhIWFhEQFxUZEhgSFhcYEhATGhUXGRcRFhUY''"
    by simp
  have a: "analyzeImage sampleEngine None (JStr ''https://example.com/sample-image.jpg'')
             JUndefined = Inr landscapeFixture"
    using analyzeImage_falls_back [where features = JUndefined and xs = "[]"
        and fs = "arrayElements defaultFeatures" and client = None
        and ref = "''https://example.com/sample-image.jpg''" and E = sampleEngine] p1
    by (simp add: landscapeFixture_def)
  have b: "analyzeImage sampleEngine (Some failingApi) (JStr personDataUri)
             (JArr [JStr ''LABEL_DETECTION'']) = Inr personFixture"
    using analyzeImage_falls_back [where features = "JArr [JStr ''LABEL_DETECTION'']"
        and xs = "[JStr ''LABEL_DETECTION'']" and fs = "[JStr ''LABEL_DETECTION'']"
        and client = "Some failingApi" and ref = personDataUri and E = sampleEngine] p2 s2
    by (simp add: arrayElements_def failingApi_def personFixture_def)
  have c: "analyzeImage sampleEngine (Some quotaApi) (JStr ''data:image/png;base64,iVBORw0KGgo='')
             (JArr [JStr ''LABEL_DETECTION'']) = Inr genericFixture"
    using analyzeImage_falls_back [where features = "JArr [JStr ''LABEL_DETECTION'']"
        and xs = "[JStr ''LABEL_DETECTION'']" and fs = "[JStr ''LABEL_DETECTION'']"
        and client = "Some quotaApi" and ref = "''data:image/png;base64,iVBORw0KGgo=''"
        and E = sampleEngine] p3 s3
    by (simp add: arrayElements_def quotaApi_def genericFixture_def)
  from a b c show ?thesis by simp
qed

subsection \<open>The two models of \<open>generateResponse\<close> agree\<close>

text \<open>
  On the value of a well-shaped analysis and a string query, nothing in \<open>OraAction\<close>
  throws, and the model on arbitrary values computes what the typed model computes.
\<close>

lemma getProp_JObj [simp]:
  "getProp (JObj kvs) k = Inr (case map_of kvs k of Some x \<Rightarrow> x | None \<Rightarrow> JUndefined)"
  by (simp add: getProp_def readProp_def)

lemma getProp_analysis:
  "getProp (valueOfAnalysis a) ''labels'' = Inr (JArr (map valueOfLabel (labels a)))"
  "getProp (valueOfAnalysis a) ''objects'' = Inr (JArr (map valueOfObject (objects a)))"
  "getProp (valueOfAnalysis a) ''text'' = Inr (JStr (detectedText a))"
  by (simp_all add: valueOfAnalysis_def)

lemma nonEmpty_JStr [simp]: "nonEmpty E (JStr s) = Inr (s \<noteq> [])"
  by (auto simp: nonEmpty_def truthy_def readProp_def jsGreater_def toNumber_def)

lemma nonEmpty_JArr [simp]: "nonEmpty E (JArr xs) = Inr (xs \<noteq> [])"
  by (auto simp: nonEmpty_def truthy_def readProp_def jsGreater_def toNumber_def)

lemma describe_labels:
  "mapM (describeEntry E ''description'') (map valueOfLabel ls) =
     Inr (map (\<lambda>l. description l @ '' (confidence: '' @ numberToFixed2 E (label.score l) @ '')'') ls)"
  by (induction ls) (simp_all add: describeEntry_def valueOfLabel_def callToFixed2_def)

lemma describe_objects:
  "mapM (describeEntry E ''name'') (map valueOfObject obs) =
     Inr (map (\<lambda>ob. name ob @ '' (confidence: '' @ numberToFixed2 E (localizedObject.score ob) @ '')'') obs)"
  by (induction obs) (simp_all add: describeEntry_def valueOfObject_def callToFixed2_def)

lemma prepareContextString_analysis:
  "\<exists>c. prepareContextString E (valueOfAnalysis a) = Inr c"
  by (simp add: prepareContextString_def getProp_analysis callMap_def describe_labels
      describe_objects)

lemma mainLabels_dyn:
  "mapM (\<lambda>l. andThen (getProp l ''description'') callToLowerCase) (map valueOfLabel ls) =
     Inr (map (\<lambda>l. toLowerCase (description l)) ls)"
  by (induction ls) (simp_all add: valueOfLabel_def callToLowerCase_def)

lemma mainObjects_dyn:
  "mapM (\<lambda>ob. andThen (getProp ob ''name'') callToLowerCase) (map valueOfObject obs) =
     Inr (map (\<lambda>ob. toLowerCase (name ob)) obs)"
  by (induction obs) (simp_all add: valueOfObject_def callToLowerCase_def)

lemma watchDetails_pairs:
  "mapM (\<lambda>l. andThen (getProp l ''description'') (\<lambda>d.
             andThen (callToLowerCase d) (\<lambda>lower. Inr (d, lower)))) (map valueOfLabel ls) =
     Inr (map (\<lambda>l. (JStr (description l), toLowerCase (description l))) ls)"
  by (induction ls) (simp_all add: valueOfLabel_def callToLowerCase_def)

lemma watchDetailsDyn_labels:
  "watchDetailsDyn (map valueOfLabel ls) = Inr (watchDetails ls)"
  by (simp add: watchDetailsDyn_def watchDetails_pairs watchDetails_def filter_map take_map
      comp_def)

lemma luxuryItemIdentificationDyn_labels:
  "luxuryItemIdentificationDyn (map valueOfLabel ls) mainLs mainOs detected =
     Inr (luxuryItemIdentification ls mainLs mainOs detected)"
  by (simp add: luxuryItemIdentificationDyn_def luxuryItemIdentification_def
      watchDetailsDyn_labels)

lemma names_of_objects:
  "mapM (\<lambda>x. if x = JUndefined \<or> x = JNull then Inr [] else toStr E x)
     (objectNames (map valueOfObject obs)) = Inr (map name obs)"
  by (induction obs) (simp_all add: objectNames_def valueOfObject_def readProp_def)

lemma objectNames_objects:
  "joinValues E sep (objectNames (map valueOfObject obs)) = Inr (join sep (map name obs))"
  by (simp add: joinValues_def names_of_objects)

lemma textNote_text:
  "textNote E lead (JStr txt) =
     Inr (if txt \<noteq> [] then lead @ [dquote] @ txt @ [dquote] @ ''.'' else [])"
  by (simp add: textNote_def)

lemma objectIdentificationDyn_objects:
  "objectIdentificationDyn E (map valueOfObject obs) mainLs (JStr txt) detected =
     Inr (objectIdentification obs mainLs txt detected)"
  by (simp add: objectIdentificationDyn_def objectIdentification_def objectNames_objects
      textNote_text Let_def)

lemma textContentDyn_text: "textContentDyn E (JStr txt) = Inr (textContent txt)"
  by (simp add: textContentDyn_def textContent_def)

lemma genericResponseDyn_objects:
  "genericResponseDyn E (map valueOfObject obs) (JStr txt) mainLs =
     Inr (genericResponse obs txt mainLs)"
  by (simp add: genericResponseDyn_def genericResponse_def objectNames_objects textNote_text
      Let_def)

lemma substantialText_text:
  "substantialText E (JStr txt) = Inr (txt \<noteq> [] \<and> length txt > 0 \<and> length txt > 10)"
  by (auto simp: substantialText_def readProp_def jsGreater_def toNumber_def)

lemma defaultResponseDyn_analysis:
  "defaultResponseDyn E (map valueOfLabel ls) (map valueOfObject obs) (JStr txt) mainLs mainOs
     detected =
   Inr (defaultResponse ls obs txt mainLs mainOs detected)"
  unfolding defaultResponseDyn_def defaultResponse_def substantialText_text
  by (simp add: luxuryItemIdentificationDyn_labels genericResponseDyn_objects
      split: option.splits)

lemma Inr_if: "(if c then Inr a else Inr b) = Inr (if c then a else b)"
  by simp

lemma completed_Inr: "completed (Inr c) = Inr (Completion c)"
  by (simp add: completed_def)

lemma generateResponseDyn_analysis:
  "generateResponseDyn E (valueOfAnalysis a) (JStr q) ctx = Inr (generateResponse a q ctx)"
proof -
  have ml: "andThen (callSlice (JArr (map valueOfLabel (labels a))) 0 5)
              (\<lambda>top. callMap top (\<lambda>l. andThen (getProp l ''description'') callToLowerCase)) =
            Inr (mainLabels a)"
    by (simp add: callSlice_def callMap_def take_map mainLabels_dyn mainLabels_def)
  have mo: "callMap (JArr (map valueOfObject (objects a)))
              (\<lambda>ob. andThen (getProp ob ''name'') callToLowerCase) = Inr (mainObjects a)"
    by (simp add: callMap_def mainObjects_dyn mainObjects_def)
  have ql: "callToLowerCase (JStr q) = Inr (toLowerCase q)"
    by (simp add: callToLowerCase_def)
  have ae: "arrayElements (JArr (map valueOfLabel (labels a))) = map valueOfLabel (labels a)"
    "arrayElements (JArr (map valueOfObject (objects a))) = map valueOfObject (objects a)"
    by (simp_all add: arrayElements_def)
  have de: "filter (\<lambda>item. item \<in> set luxuryItems) (mainLabels a @ mainObjects a) =
              detectedLuxuryItems a"
    by (simp add: detectedLuxuryItems_def allEntities_def)
  show ?thesis
    unfolding generateResponseDyn_def generateResponse_def
    by (simp only: getProp_analysis andThen_Inr ml mo ql ae Let_def de allEntities_def
        luxuryItemIdentificationDyn_labels objectIdentificationDyn_objects textContentDyn_text
        defaultResponseDyn_analysis completed_Inr Inr_if)
qed

subsection \<open>\<open>OraAction.execute\<close> and what it catches\<close>

lemma generateResponse_context: "generateResponse a q ctx = generateResponse a q []"
  by (simp add: generateResponse_def)

lemma serializable_analysis: "serializable (valueOfAnalysis a)"
  by (simp add: valueOfAnalysis_def valueOfLabel_def valueOfObject_def list_all_iff)

lemma OraAction_execute_analysis:
  "OraAction_execute E (valueOfAnalysis a) (JStr q) = Inr (generateResponse a q [])"
proof -
  obtain c where c: "prepareContextString E (valueOfAnalysis a) = Inr c"
    using prepareContextString_analysis by blast
  show ?thesis
    by (simp add: OraAction_execute_def jsonStringify_def serializable_analysis c
        generateResponseDyn_analysis generateResponse_context [of a q c])
qed

text \<open>
  Claim C10 speaks of every parameters object. Two statements are executed for the log
  before the \<open>try\<close>. \<open>JSON.stringify(imageAnalysis, null, 2)\<close> throws on an analysis that
  holds a \<open>BigInt\<close>. The template literal with \<open>query\<close> throws on a query that cannot be
  converted to a string: the object \<open>{"toString": 1}\<close>, which a JSON body can carry, or a
  \<open>Symbol\<close>. Nothing catches either, and the promise that \<open>execute\<close> returns is rejected.
\<close>

theorem execute_rejects_counterexample:
  "OraAction_execute sampleEngine bigIntAnalysis (JStr ''what is this'') = Inl TypeError \<and>
   OraAction_execute sampleEngine plainAnalysis (JObj [(''toString'', JNum 1)]) = Inl TypeError \<and>
   OraAction_execute sampleEngine plainAnalysis JSymbol = Inl TypeError"
  by (simp add: OraAction_execute_def jsonStringify_def bigIntAnalysis_def)

text \<open>
  Claim C10, amended. When \<open>imageAnalysis\<close> is a value that \<open>JSON.stringify\<close> accepts and
  \<open>query\<close> is a value that converts to a string (every string is one), \<open>execute\<close>
  returns: what \<open>prepareContextString\<close> or \<open>generateResponse\<close> throws comes back as the
  error object with the message "Failed to query ORA API: ...", and otherwise the reply
  of \<open>generateResponse\<close> is returned.
\<close>

theorem execute_catches_on_serializable:
  assumes "serializable imageAnalysis" and "convertible query"
  shows "(\<exists>reply. OraAction_execute E imageAnalysis query = Inr reply) \<and>
         (\<forall>e. prepareContextString E imageAnalysis = Inl e \<longrightarrow>
              OraAction_execute E imageAnalysis query =
                Inr (OraError (''Failed to query ORA API: '' @ errorMessage e))) \<and>
         (\<forall>c e. prepareContextString E imageAnalysis = Inr c \<longrightarrow>
                generateResponseDyn E imageAnalysis query c = Inl e \<longrightarrow>
                OraAction_execute E imageAnalysis query =
                  Inr (OraError (''Failed to query ORA API: '' @ errorMessage e))) \<and>
         (\<forall>c reply. prepareContextString E imageAnalysis = Inr c \<longrightarrow>
                generateResponseDyn E imageAnalysis query c = Inr reply \<longrightarrow>
                OraAction_execute E imageAnalysis query = Inr reply)"
proof -
  from toStr_convertible [OF assms(2)] obtain s where "toStr E query = Inr s" ..
  with assms(1) show ?thesis
    by (simp add: OraAction_execute_def jsonStringify_def)
qed

theorem execute_catches_on_serializable_witness:
  "serializable (JObj []) \<and> convertible (JStr ''what is this'') \<and>
   prepareContextString sampleEngine (JObj []) =
     Inr (''Image Analysis Results:'' @ [CHR 0x0A] @ ''Text detected: None'' @ [CHR 0x0A]) \<and>
   generateResponseDyn sampleEngine (JObj []) (JStr ''what is this'')
     (''Image Analysis Results:'' @ [CHR 0x0A] @ ''Text detected: None'' @ [CHR 0x0A]) =
     Inl TypeError \<and>
   OraAction_execute sampleEngine (JObj []) (JStr ''what is this'') =
     Inr (OraError ''Failed to query ORA API: TypeError'') \<and>
   serializable badScoreAnalysis \<and>
   prepareContextString sampleEngine badScoreAnalysis = Inl TypeError \<and>
   OraAction_execute sampleEngine badScoreAnalysis (JStr ''what is this'') =
     Inr (OraError ''Failed to query ORA API: TypeError'') \<and>
   serializable notSequenceAnalysis \<and>
   prepareContextString sampleEngine notSequenceAnalysis = Inl TypeError \<and>
   OraAction_execute sampleEngine notSequenceAnalysis (JStr ''what is this'') =
     Inr (OraError ''Failed to query ORA API: TypeError'') \<and>
   serializable plainAnalysis \<and>
   OraAction_execute sampleEngine plainAnalysis (JStr ''what is this'') =
     Inr (Completion ''The image doesn't contain clearly defined objects. It appears to be a scene.'')"
proof -
  have q: "convertible (JStr ''what is this'')" by simp
  have s1: "serializable (JObj [])" by simp
  have p1: "prepareContextString sampleEngine (JObj []) =
     Inr (''Image Analysis Results:'' @ [CHR 0x0A] @ ''Text detected: None'' @ [CHR 0x0A])"
    by (simp add: prepareContextString_def nonEmpty_def truthy_def)
  have g1: "generateResponseDyn sampleEngine (JObj []) (JStr ''what is this'')
     (''Image Analysis Results:'' @ [CHR 0x0A] @ ''Text detected: None'' @ [CHR 0x0A]) =
     Inl TypeError"
    by (simp add: generateResponseDyn_def callSlice_def)
  have s2: "serializable badScoreAnalysis" by (simp add: badScoreAnalysis_def)
  have p2: "prepareContextString sampleEngine badScoreAnalysis = Inl TypeError"
    by (simp add: prepareContextString_def badScoreAnalysis_def callMap_def describeEntry_def
        callToFixed2_def)
  have s3: "serializable notSequenceAnalysis" by (simp add: notSequenceAnalysis_def)
  have p3: "prepareContextString sampleEngine notSequenceAnalysis = Inl TypeError"
    by (simp add: prepareContextString_def notSequenceAnalysis_def callMap_def)
  have s4: "serializable plainAnalysis" by (simp add: plainAnalysis_def)
  have p4: "prepareContextString sampleEngine plainAnalysis =
     Inr (''Image Analysis Results:'' @ [CHR 0x0A] @ ''Text detected: None'' @ [CHR 0x0A])"
    by (simp add: prepareContextString_def plainAnalysis_def)
  have l4: "toLowerCase ''what is this'' = ''what is this''"
    by (simp add: toLowerCase_def toLowerChar_def)
  have g4: "generateResponseDyn sampleEngine plainAnalysis (JStr ''what is this'')
     (''Image Analysis Results:'' @ [CHR 0x0A] @ ''Text detected: None'' @ [CHR 0x0A]) =
     Inr (Completion ''The image doesn't contain clearly defined objects. It appears to be a scene.'')"
    by (simp add: generateResponseDyn_def plainAnalysis_def callSlice_def callMap_def
        callToLowerCase_def l4 arrayElements_def objectIdentificationDyn_def completed_def)
  from execute_catches_on_serializable [OF s1 q, of sampleEngine]
    execute_catches_on_serializable [OF s2 q, of sampleEngine]
    execute_catches_on_serializable [OF s3 q, of sampleEngine]
    execute_catches_on_serializable [OF s4 q, of sampleEngine]
    q s1 p1 g1 s2 p2 s3 p3 s4 p4 g4
  show ?thesis
    by (simp add: errorMessage_def)
qed

subsection \<open>Validation of the request body\<close>

lemma getProp_defined:
  "body \<noteq> JNull \<Longrightarrow> body \<noteq> JUndefined \<Longrightarrow> getProp body k = Inr (readProp body k)"
  by (cases body) (simp_all add: getProp_def)

text \<open>
  Claim C8. Each of the three routes answers a body that lacks a required field with
  status 400, by a test of the field read from the parsed body. The body \<open>null\<close> is
  JSON, parses, and lacks every field; on it the read \<open>body.imageUrl\<close> (or
  \<open>body.imageAnalysis\<close>) itself throws before the test is reached, and the handler's
  \<open>catch\<close> answers with status 500 instead of 400, on each of the three routes.
\<close>

theorem null_body_answers_500:
  "handleRequest sampleEngine None (post ''/api/analyze-image'' JNull) =
     \<lparr>status = 500, content = Json (JObj [(''error'', JStr ''TypeError'')])\<rparr> \<and>
   handleRequest sampleEngine None (post ''/api/query-ora'' JNull) =
     \<lparr>status = 500, content = Json (JObj [(''error'', JStr ''TypeError'')])\<rparr> \<and>
   handleRequest sampleEngine None (post ''/api/analyze-and-query'' JNull) =
     \<lparr>status = 500, content = Json (JObj [(''error'', JStr ''TypeError'')])\<rparr>"
  by (simp add: handleRequest_def post_def analyzeImageRoute_def queryOraRoute_def
      analyzeAndQueryRoute_def parseRequestBody_def getProp_def errorResponse_def
      errorMessage_def)

text \<open>
  Every other body: a POST to one of the three routes whose body is not \<open>null\<close> and
  lacks a required field (reading the field gives \<open>undefined\<close>) is answered with status
  400 and a JSON body with an \<open>error\<close> field, whatever the vision client and the engine
  are.
\<close>

theorem missing_field_is_400:
  assumes "body \<noteq> JNull" and "body \<noteq> JUndefined"
  shows "(readProp body ''imageUrl'' = JUndefined \<longrightarrow>
            handleRequest E client (post ''/api/analyze-image'' body) =
              \<lparr>status = 400, content = Json (JObj [(''error'', JStr ''imageUrl is required'')])\<rparr>) \<and>
         (readProp body ''imageAnalysis'' = JUndefined \<or> readProp body ''query'' = JUndefined \<longrightarrow>
            handleRequest E client (post ''/api/query-ora'' body) =
              \<lparr>status = 400,
               content = Json (JObj [(''error'', JStr ''imageAnalysis and query are required'')])\<rparr>) \<and>
         (readProp body ''imageUrl'' = JUndefined \<or> readProp body ''query'' = JUndefined \<longrightarrow>
            handleRequest E client (post ''/api/analyze-and-query'' body) =
              \<lparr>status = 400,
               content = Json (JObj [(''error'', JStr ''imageUrl and query are required'')])\<rparr>)"
proof -
  note g = getProp_defined [OF assms]
  have u: "\<not> truthy JUndefined" by (simp add: truthy_def)
  have r1: "readProp body ''imageUrl'' = JUndefined \<Longrightarrow>
            handleRequest E client (post ''/api/analyze-image'' body) =
              \<lparr>status = 400, content = Json (JObj [(''error'', JStr ''imageUrl is required'')])\<rparr>"
    by (simp add: handleRequest_def post_def analyzeImageRoute_def parseRequestBody_def g u
        errorResponse_def)
  have r2: "readProp body ''imageAnalysis'' = JUndefined \<or> readProp body ''query'' = JUndefined \<Longrightarrow>
            handleRequest E client (post ''/api/query-ora'' body) =
              \<lparr>status = 400,
               content = Json (JObj [(''error'', JStr ''imageAnalysis and query are required'')])\<rparr>"
    by (auto simp: handleRequest_def post_def queryOraRoute_def parseRequestBody_def g u
        errorResponse_def)
  have r3: "readProp body ''imageUrl'' = JUndefined \<or> readProp body ''query'' = JUndefined \<Longrightarrow>
            handleRequest E client (post ''/api/analyze-and-query'' body) =
              \<lparr>status = 400,
               content = Json (JObj [(''error'', JStr ''imageUrl and query are required'')])\<rparr>"
    by (auto simp: handleRequest_def post_def analyzeAndQueryRoute_def parseRequestBody_def g u
        errorResponse_def)
  from r1 r2 r3 show ?thesis by blast
qed

theorem missing_field_is_400_witness:
  "readProp (JObj []) ''imageUrl'' = JUndefined \<and>
   handleRequest sampleEngine None (post ''/api/analyze-image'' (JObj [])) =
     \<lparr>status = 400, content = Json (JObj [(''error'', JStr ''imageUrl is required'')])\<rparr> \<and>
   readProp (JObj [(''query'', JStr ''what is this'')]) ''imageAnalysis'' = JUndefined \<and>
   handleRequest sampleEngine None (post ''/api/query-ora'' (JObj [(''query'', JStr ''what is this'')])) =
     \<lparr>status = 400,
      content = Json (JObj [(''error'', JStr ''imageAnalysis and query are required'')])\<rparr> \<and>
   readProp (JArr [JStr ''https://example.com/a.jpg'']) ''query'' = JUndefined \<and>
   handleRequest sampleEngine None
       (post ''/api/analyze-and-query'' (JArr [JStr ''https://example.com/a.jpg''])) =
     \<lparr>status = 400,
      content = Json (JObj [(''error'', JStr ''imageUrl and query are required'')])\<rparr>"
proof -
  have h1: "readProp (JObj []) ''imageUrl'' = JUndefined"
    by (simp add: readProp_def)
  have h2: "readProp (JObj [(''query'', JStr ''what is this'')]) ''imageAnalysis'' = JUndefined"
    by (simp add: readProp_def)
  have h3: "readProp (JArr [JStr ''https://example.com/a.jpg'']) ''query'' = JUndefined"
    by (simp add: readProp_def)
  from missing_field_is_400 [of "JObj []" sampleEngine None]
    missing_field_is_400 [of "JObj [(''query'', JStr ''what is this'')]" sampleEngine None]
    missing_field_is_400 [of "JArr [JStr ''https://example.com/a.jpg'']" sampleEngine None]
    h1 h2 h3
  show ?thesis by simp
qed

subsection \<open>The combined route and the two single-step routes\<close>





lemma truthy_values [simp]:
  "truthy (JStr s) = (s \<noteq> [])" "truthy (JArr xs)" "truthy (JObj kvs)" "\<not> truthy JUndefined"
  by (simp_all add: truthy_def)


lemma truthy_analysis [simp]: "truthy (valueOfAnalysis a)"
  by (simp add: valueOfAnalysis_def)








subsection \<open>\<open>execute\<close> on a well-shaped analysis\<close>

text \<open>
  On the value of an \<open>AnalysisResult\<close> and a string query, \<open>OraAction.execute\<close> returns
  the completion that the typed \<open>generateResponse\<close> computes: nothing throws, and the
  error object is not produced.
\<close>

theorem execute_on_analysis_result:
  "OraAction_execute E (valueOfAnalysis a) (JStr q) = Inr (generateResponse a q ctx)"
  using OraAction_execute_analysis [of E a q] generateResponse_context [of a q ctx]
  by simp

end
